theory Spec2Isabelle
  imports Main "HOL-Library.Sublist"
begin

section \<open>Values of the scripting runtime\<close>

text \<open>
  An optional string stands for a value that may be \<^verbatim>\<open>undefined\<close>. In a condition the
  runtime takes \<^verbatim>\<open>undefined\<close> and the empty string for false; \<^verbatim>\<open>a || b\<close> is \<open>a\<close>
  when \<open>a\<close> is taken for true and \<open>b\<close> otherwise.
\<close>

fun truthy :: "string option \<Rightarrow> bool" where
  "truthy None = False"
| "truthy (Some s) = (s \<noteq> [])"

fun or_else :: "string option \<Rightarrow> string \<Rightarrow> string" where
  "or_else None d = d"
| "or_else (Some s) d = (if s = [] then d else s)"

text \<open>
  \<^verbatim>\<open>s.split(sep)\<close> and \<^verbatim>\<open>pieces.join(sep)\<close> of the string library. With a non-empty
  separator, \<open>split\<close> scans from the left and cuts at every occurrence of the separator
  that starts after the end of the previous one; with the empty separator it returns
  the single code units. \<open>split_from sep piece s\<close> is the scan, \<open>piece\<close> being the part
  of the current piece already read.
\<close>

function split_from :: "'a list \<Rightarrow> 'a list \<Rightarrow> 'a list \<Rightarrow> 'a list list" where
  "split_from sep piece s =
     (if s = [] then [piece]
      else if sep \<noteq> [] \<and> prefix sep s
        then piece # split_from sep [] (drop (length sep) s)
        else split_from sep (piece @ [hd s]) (tl s))"
  by pat_completeness auto
termination
  by (relation "measure (\<lambda>(sep, piece, s). length s)") auto

declare split_from.simps [simp del]

definition split :: "'a list \<Rightarrow> 'a list \<Rightarrow> 'a list list" where
  "split s sep = (if sep = [] then map (\<lambda>c. [c]) s else split_from sep [] s)"

fun join :: "'a list \<Rightarrow> 'a list list \<Rightarrow> 'a list" where
  "join sep [] = []"
| "join sep [x] = x"
| "join sep (x # y # ys) = x @ sep @ join sep (y # ys)"

section \<open>Data model (github-client.ts)\<close>

record FileContent =
  fc_content :: string
  fc_sha :: string
  fc_path :: string
  fc_encoding :: string

record CommitResult =
  cr_sha :: string
  cr_url :: string
  cr_message :: string

text \<open>
  What the contents API of the hosting service answers: one object, or an array of
  entries when the path is a directory. Only an object of type file has the fields
  \<open>content\<close> and \<open>encoding\<close>.
\<close>

record item =
  item_type :: string
  item_path :: string
  item_sha :: string
  item_content :: "string option"
  item_encoding :: "string option"

datatype contents = Listing "item list" | Object item

record get_request =
  g_owner :: string
  g_repo :: string
  g_path :: string
  g_ref :: string

record put_request =
  p_owner :: string
  p_repo :: string
  p_path :: string
  p_message :: string
  p_content :: string
  p_sha :: "string option"
  p_branch :: string

record commit =
  commit_sha :: "string option"
  commit_html_url :: "string option"
  commit_message :: "string option"

text \<open>An error thrown by a request: its HTTP status, if it has one, and its message.\<close>

datatype api_error = ApiError (err_status: "nat option") (err_message: string)

text \<open>
  The hosting service is not part of the program. Its two operations are parameters:
  each takes the credential of the caller, the request and the state \<open>'r\<close> of the
  service. Reading the contents leaves that state as it is.
\<close>

record 'r api =
  getContent :: "string \<Rightarrow> get_request \<Rightarrow> 'r \<Rightarrow> api_error + contents"
  createOrUpdateFileContents :: "string \<Rightarrow> put_request \<Rightarrow> 'r \<Rightarrow> (api_error + commit) \<times> 'r"

text \<open>
  The sidecar \<^verbatim>\<open><file>.meta.json\<close>, as the checkout command writes it and the checkin
  command extends it.
\<close>

record meta =
  m_path :: string
  m_sha :: string
  m_branch :: "string option"
  checkedOutAt :: string
  lastCommit :: "string option"
  lastUpdatedAt :: "string option"

text \<open>
  The library functions the program calls on strings are parameters: the base64 decoder
  and encoder of \<^verbatim>\<open>Buffer\<close> (decoding ends in a conversion to text), \<^verbatim>\<open>JSON.parse\<close>
  on the text of a sidecar and \<^verbatim>\<open>JSON.stringify\<close> on a sidecar. \<open>JSON_parse\<close> gives
  \<open>None\<close> when the call throws; a text that parses to something else than a sidecar
  is outside the model.
\<close>

record runtime =
  base64_decode :: "string \<Rightarrow> string"
  base64_encode :: "string \<Rightarrow> string"
  JSON_parse :: "string \<Rightarrow> meta option"
  JSON_stringify :: "meta \<Rightarrow> string"

text \<open>Every value the program throws, one constructor for each message.\<close>

datatype error =
    IsDirectory string              \<comment> \<open>Path "p" is a directory, not a file\<close>
  | NotFileType string string       \<comment> \<open>Path "p" is not a file (type: t)\<close>
  | NoContent string                \<comment> \<open>No content found for file "p"\<close>
  | FileNotFound string             \<comment> \<open>File not found: p\<close>
  | LocalFileNotFound string        \<comment> \<open>Local file not found: f\<close>
  | MetadataNotFound string         \<comment> \<open>Metadata file not found: f.meta.json\<close>
  | MissingToken                    \<comment> \<open>GITHUB_TOKEN environment variable is required\<close>
  | SyntaxError string              \<comment> \<open>thrown by JSON.parse on this text\<close>
  | RequestError api_error          \<comment> \<open>thrown by a request, passed on as it is\<close>

fun status_of :: "error \<Rightarrow> nat option" where
  "status_of (RequestError e) = err_status e"
| "status_of _ = None"

record client =
  octokit :: string
  owner :: string
  repo :: string

datatype call = GetContent get_request | CreateOrUpdate put_request

datatype line =
    TokenRequired | TokenHint
  | CheckingOut string
  | Replaced string string
  | TextNotFound string
  | Appended
  | Prepended
  | NoModifications
  | CheckingIn string
  | CommittedOk
  | CommitLine string
  | UrlLine string
  | PagesWillUpdate
  | ErrorLine error

text \<open>
  The world a command runs in: the environment variables, the local files, the clock,
  the state of the hosting service, the requests sent to it so far and the lines
  printed so far.
\<close>

record 'r world =
  environ :: "string \<rightharpoonup> string"
  disk :: "string \<rightharpoonup> string"
  clock :: string
  remote :: 'r
  calls :: "call list"
  console :: "line list"

definition print :: "line \<Rightarrow> 'r world \<Rightarrow> 'r world" where
  "print l w = w\<lparr>console := console w @ [l]\<rparr>"

definition writeFileSync :: "string \<Rightarrow> string \<Rightarrow> 'r world \<Rightarrow> 'r world" where
  "writeFileSync p s w = w\<lparr>disk := (disk w)(p \<mapsto> s)\<rparr>"

definition repos_getContent ::
  "'r api \<Rightarrow> client \<Rightarrow> get_request \<Rightarrow> 'r world \<Rightarrow> (api_error + contents) \<times> 'r world" where
  "repos_getContent a cl req w =
     (getContent a (octokit cl) req (remote w), w\<lparr>calls := calls w @ [GetContent req]\<rparr>)"

definition repos_createOrUpdateFileContents ::
  "'r api \<Rightarrow> client \<Rightarrow> put_request \<Rightarrow> 'r world \<Rightarrow> (api_error + commit) \<times> 'r world" where
  "repos_createOrUpdateFileContents a cl req w =
     (case createOrUpdateFileContents a (octokit cl) req (remote w) of
        (response, r') \<Rightarrow> (response, w\<lparr>remote := r', calls := calls w @ [CreateOrUpdate req]\<rparr>))"

section \<open>GitHubClient (github-client.ts)\<close>

text \<open>The catch block of \<open>checkout\<close>: status 404 becomes "File not found".\<close>

fun catch_checkout :: "string \<Rightarrow> error + FileContent \<Rightarrow> error + FileContent" where
  "catch_checkout path (Inl e) =
     (if status_of e = Some 404 then Inl (FileNotFound path) else Inl e)"
| "catch_checkout path (Inr v) = Inr v"

definition checkout ::
  "runtime \<Rightarrow> 'r api \<Rightarrow> client \<Rightarrow> string \<Rightarrow> string \<Rightarrow> 'r world \<Rightarrow> (error + FileContent) \<times> 'r world" where
  "checkout rt a cl path branch w =
     (case repos_getContent a cl
             \<lparr>g_owner = owner cl, g_repo = repo cl, g_path = path, g_ref = branch\<rparr> w of
        (response, w') \<Rightarrow>
          (catch_checkout path
             (case response of
                Inl e \<Rightarrow> Inl (RequestError e)
              | Inr (Listing entries) \<Rightarrow> Inl (IsDirectory path)
              | Inr (Object d) \<Rightarrow>
                  if item_type d \<noteq> ''file'' then Inl (NotFileType path (item_type d))
                  else (case item_content d of
                          None \<Rightarrow> Inl (NoContent path)
                        | Some c \<Rightarrow>
                            if c = [] then Inl (NoContent path)
                            else Inr \<lparr>fc_content = base64_decode rt c,
                                      fc_sha = item_sha d,
                                      fc_path = item_path d,
                                      fc_encoding = or_else (item_encoding d) ''base64''\<rparr>)),
           w'))"

fun commit_result :: "string \<Rightarrow> api_error + commit \<Rightarrow> error + CommitResult" where
  "commit_result message (Inl e) = Inl (RequestError e)"
| "commit_result message (Inr c) =
     Inr \<lparr>cr_sha = or_else (commit_sha c) [],
          cr_url = or_else (commit_html_url c) [],
          cr_message = or_else (commit_message c) message\<rparr>"

definition checkin ::
  "runtime \<Rightarrow> 'r api \<Rightarrow> client \<Rightarrow> string \<Rightarrow> string \<Rightarrow> string \<Rightarrow> string \<Rightarrow> string \<Rightarrow> 'r world
     \<Rightarrow> (error + CommitResult) \<times> 'r world" where
  "checkin rt a cl path content message sha branch w =
     (let encodedContent = base64_encode rt content in
      case repos_createOrUpdateFileContents a cl
             \<lparr>p_owner = owner cl, p_repo = repo cl, p_path = path, p_message = message,
              p_content = encodedContent, p_sha = Some sha, p_branch = branch\<rparr> w of
        (response, w') \<Rightarrow> (commit_result message response, w'))"

definition createFile ::
  "runtime \<Rightarrow> 'r api \<Rightarrow> client \<Rightarrow> string \<Rightarrow> string \<Rightarrow> string \<Rightarrow> string \<Rightarrow> 'r world
     \<Rightarrow> (error + CommitResult) \<times> 'r world" where
  "createFile rt a cl path content message branch w =
     (let encodedContent = base64_encode rt content in
      case repos_createOrUpdateFileContents a cl
             \<lparr>p_owner = owner cl, p_repo = repo cl, p_path = path, p_message = message,
              p_content = encodedContent, p_sha = None, p_branch = branch\<rparr> w of
        (response, w') \<Rightarrow> (commit_result message response, w'))"

definition listFiles ::
  "'r api \<Rightarrow> client \<Rightarrow> string \<Rightarrow> string \<Rightarrow> 'r world \<Rightarrow> (error + string list) \<times> 'r world" where
  "listFiles a cl path branch w =
     (case repos_getContent a cl
             \<lparr>g_owner = owner cl, g_repo = repo cl, g_path = path, g_ref = branch\<rparr> w of
        (response, w') \<Rightarrow>
          (case response of
             Inl e \<Rightarrow> Inl (RequestError e)
           | Inr (Object d) \<Rightarrow> Inr [item_path d]
           | Inr (Listing entries) \<Rightarrow>
               Inr (map item_path (filter (\<lambda>i. item_type i = ''file'') entries)),
           w'))"

section \<open>Command surface\<close>

text \<open>
  \<open>getClient\<close> reads the credential, the owner and the repository name from the
  environment. Without a credential it prints two lines and the process exits with
  status 1: the result \<open>Inl\<close>.
\<close>

definition getClient :: "'r world \<Rightarrow> (error + client) \<times> 'r world" where
  "getClient w =
     (let token = environ w ''GITHUB_TOKEN'';
          owner = or_else (environ w ''GITHUB_OWNER'') ''leeasling-gradial'';
          repo = or_else (environ w ''GITHUB_REPO'') ''grady-challenge''
      in case token of
           None \<Rightarrow> (Inl MissingToken, print TokenHint (print TokenRequired w))
         | Some t \<Rightarrow>
             if t = [] then (Inl MissingToken, print TokenHint (print TokenRequired w))
             else (Inr \<lparr>octokit = t, owner = owner, repo = repo\<rparr>, w))"

text \<open>
  The catch block of every command: the message of the error is printed and the process
  exits with status 1. A command returns \<open>Inl e\<close> when it exits with status 1 on the
  error \<open>e\<close>, and \<open>Inr ()\<close> when it runs to its end.
\<close>

fun catch_exit :: "(error + unit) \<times> 'r world \<Rightarrow> (error + unit) \<times> 'r world" where
  "catch_exit (Inl e, w) = (Inl e, print (ErrorLine e) w)"
| "catch_exit (Inr u, w) = (Inr u, w)"

text \<open>
  The options of a command as the argument parser hands them over: \<open>--message\<close> and
  the \<open>--branch\<close> of update have defaults and are always there, the others may be
  \<^verbatim>\<open>undefined\<close>. A path of the disk is mapped to the text of the file, and a path that
  is not mapped does not exist.
\<close>

record checkin_options =
  ci_message :: string
  ci_branch :: "string option"

text \<open>\<open>checkin_body\<close> is the try block of the checkin command.\<close>

definition checkin_body ::
  "runtime \<Rightarrow> 'r api \<Rightarrow> client \<Rightarrow> string \<Rightarrow> checkin_options \<Rightarrow> 'r world \<Rightarrow> (error + unit) \<times> 'r world" where
  "checkin_body rt a cl file options w =
     (case disk w file of
        None \<Rightarrow> (Inl (LocalFileNotFound file), w)
      | Some content \<Rightarrow>
          let metaPath = file @ ''.meta.json'' in
          (case disk w metaPath of
             None \<Rightarrow> (Inl (MetadataNotFound metaPath), w)
           | Some text \<Rightarrow>
               (case JSON_parse rt text of
                  None \<Rightarrow> (Inl (SyntaxError text), w)
                | Some meta \<Rightarrow>
                    let branch = or_else (ci_branch options) (or_else (m_branch meta) ''main'');
                        w1 = print (CheckingIn (m_path meta)) w
                    in (case checkin rt a cl (m_path meta) content (ci_message options)
                               (m_sha meta) branch w1 of
                          (Inl e, w2) \<Rightarrow> (Inl e, w2)
                        | (Inr result, w2) \<Rightarrow>
                            let meta' = meta\<lparr>m_sha := cr_sha result,
                                             lastCommit := Some (cr_url result),
                                             lastUpdatedAt := Some (clock w2)\<rparr>;
                                w3 = writeFileSync metaPath (JSON_stringify rt meta') w2;
                                w4 = print CommittedOk w3;
                                w5 = print (CommitLine (take 7 (cr_sha result))) w4;
                                w6 = print (UrlLine (cr_url result)) w5
                            in (Inr (), print PagesWillUpdate w6)))))"

definition checkin_action ::
  "runtime \<Rightarrow> 'r api \<Rightarrow> string \<Rightarrow> checkin_options \<Rightarrow> 'r world \<Rightarrow> (error + unit) \<times> 'r world" where
  "checkin_action rt a file options w =
     (case getClient w of
        (Inl e, w0) \<Rightarrow> (Inl e, w0)
      | (Inr cl, w0) \<Rightarrow> catch_exit (checkin_body rt a cl file options w0))"

record update_options =
  up_branch :: string
  up_message :: string
  up_find :: "string option"
  up_replace :: "string option"
  up_append :: "string option"
  up_prepend :: "string option"

text \<open>
  The three transformations of the update command. Each takes and returns the content,
  the flag \<open>modified\<close> and the lines printed.
\<close>

type_synonym edit = "string \<times> bool \<times> line list"

definition find_replace :: "update_options \<Rightarrow> edit \<Rightarrow> edit" where
  "find_replace options st =
     (case st of (content, modified, out) \<Rightarrow>
        (case (up_find options, up_replace options) of
           (Some f, Some r) \<Rightarrow>
             if f = [] then st
             else let newContent = join r (split content f) in
               if newContent \<noteq> content then (newContent, True, out @ [Replaced f r])
               else (content, modified, out @ [TextNotFound f])
         | _ \<Rightarrow> st))"

definition append_text :: "update_options \<Rightarrow> edit \<Rightarrow> edit" where
  "append_text options st =
     (case st of (content, modified, out) \<Rightarrow>
        (case up_append options of
           None \<Rightarrow> st
         | Some t \<Rightarrow> if t = [] then st else (content @ t, True, out @ [Appended])))"

definition prepend_text :: "update_options \<Rightarrow> edit \<Rightarrow> edit" where
  "prepend_text options st =
     (case st of (content, modified, out) \<Rightarrow>
        (case up_prepend options of
           None \<Rightarrow> st
         | Some t \<Rightarrow> if t = [] then st else (t @ content, True, out @ [Prepended])))"

definition transformations :: "update_options \<Rightarrow> string \<Rightarrow> edit" where
  "transformations options content =
     prepend_text options (append_text options (find_replace options (content, False, [])))"

text \<open>\<open>update_body\<close> is the try block of the update command.\<close>

definition update_body ::
  "runtime \<Rightarrow> 'r api \<Rightarrow> client \<Rightarrow> string \<Rightarrow> update_options \<Rightarrow> 'r world \<Rightarrow> (error + unit) \<times> 'r world" where
  "update_body rt a cl file options w =
     (case checkout rt a cl file (up_branch options) (print (CheckingOut file) w) of
        (Inl e, w1) \<Rightarrow> (Inl e, w1)
      | (Inr result, w1) \<Rightarrow>
          (case transformations options (fc_content result) of
             (content, modified, out) \<Rightarrow>
               let w2 = w1\<lparr>console := console w1 @ out\<rparr> in
               if \<not> modified then (Inr (), print NoModifications w2)
               else (case checkin rt a cl file content (up_message options) (fc_sha result)
                            (up_branch options) (print (CheckingIn file) w2) of
                       (Inl e, w3) \<Rightarrow> (Inl e, w3)
                     | (Inr commitResult, w3) \<Rightarrow>
                         let w4 = print CommittedOk w3;
                             w5 = print (CommitLine (take 7 (cr_sha commitResult))) w4;
                             w6 = print (UrlLine (cr_url commitResult)) w5
                         in (Inr (), print PagesWillUpdate w6))))"

definition update_action ::
  "runtime \<Rightarrow> 'r api \<Rightarrow> string \<Rightarrow> update_options \<Rightarrow> 'r world \<Rightarrow> (error + unit) \<times> 'r world" where
  "update_action rt a file options w =
     (case getClient w of
        (Inl e, w0) \<Rightarrow> (Inl e, w0)
      | (Inr cl, w0) \<Rightarrow> catch_exit (update_body rt a cl file options w0))"

section \<open>Replacement, as the specification words it\<close>

text \<open>
  "Literal find/replace (exact substring match, all non-overlapping occurrences)":
  reading the content from the left, every occurrence of the non-empty text \<open>f\<close> is
  replaced by \<open>r\<close> and reading goes on after the occurrence; any other character is
  kept.
\<close>

function replace_all :: "'a list \<Rightarrow> 'a list \<Rightarrow> 'a list \<Rightarrow> 'a list" where
  "replace_all f r s =
     (if s = [] then []
      else if f \<noteq> [] \<and> prefix f s then r @ replace_all f r (drop (length f) s)
      else hd s # replace_all f r (tl s))"
  by pat_completeness auto
termination
  by (relation "measure (\<lambda>(f, r, s). length s)") auto

declare replace_all.simps [simp del]

text \<open>
  The three transformations in the order the specification fixes: find/replace when a
  non-empty \<open>find\<close> and a \<open>replace\<close> are given, then the suffix, then the prefix. An
  option that is not given adds nothing.
\<close>

definition replaced :: "update_options \<Rightarrow> string \<Rightarrow> string" where
  "replaced options content =
     (case (up_find options, up_replace options) of
        (Some f, Some r) \<Rightarrow> replace_all f r content
      | _ \<Rightarrow> content)"

definition transformed :: "update_options \<Rightarrow> string \<Rightarrow> string" where
  "transformed options content =
     or_else (up_prepend options) [] @ (replaced options content @ or_else (up_append options) [])"

text \<open>
  "At least one transform changed the content": the replacement, the suffix or the
  prefix gives a content different from the one it was applied to.
\<close>

definition changes :: "update_options \<Rightarrow> string \<Rightarrow> bool" where
  "changes options content =
     (let c1 = replaced options content;
          c2 = c1 @ or_else (up_append options) [];
          c3 = or_else (up_prepend options) [] @ c2
      in c1 \<noteq> content \<or> c2 \<noteq> c1 \<or> c3 \<noteq> c2)"

section \<open>Branch precedence, as the specification words it\<close>
text \<open>
  "A branch override precedence of (explicit flag > sidecar's recorded branch >
  default)": the flag when it is given, else the recorded branch when there is one,
  else "main".
\<close>
definition branch_as_stated :: "string option \<Rightarrow> string option \<Rightarrow> string" where
  "branch_as_stated flag recorded =
     (case flag of
        Some b \<Rightarrow> b
      | None \<Rightarrow> (case recorded of Some b \<Rightarrow> b | None \<Rightarrow> ''main''))"
text \<open>The same precedence when an empty branch name counts as not given.\<close>
fun non_empty :: "string option \<Rightarrow> string option" where
  "non_empty None = None"
| "non_empty (Some s) = (if s = [] then None else Some s)"
definition branch_non_empty :: "string option \<Rightarrow> string option \<Rightarrow> string" where
  "branch_non_empty flag recorded = branch_as_stated (non_empty flag) (non_empty recorded)"

section \<open>The hosting service\<close>

text \<open>
  Modelled from the spec: the content API of the hosting service, an external
  collaborator that the source calls and does not contain. A file lives at an owner,
  repository, branch and path; the service keeps its content as submitted and the
  number of the revision that wrote it. "The remote system always advances revision on
  write": revisions are numbered in the order they are written, and the revision marker
  of revision \<open>n\<close> is an opaque string that names \<open>n\<close>. A conditional update names the
  marker the caller last saw; the service "must reject the update (surfacing a conflict
  error) if the current remote revision marker differs". An update without a marker is
  the "unconditional create/update". The answer to an accepted write names the new
  revision: the specification's CommitResult holds the "revisionMarker (of the new
  commit)". Directories are not part of this model.
\<close>

type_synonym location = "string \<times> string \<times> string \<times> string"

record hosted =
  store :: "location \<rightharpoonup> string \<times> nat"
  revisions :: nat

definition marker_of :: "nat \<Rightarrow> string" where
  "marker_of n = replicate (Suc n) (CHR ''r'')"

definition hosted_getContent :: "string \<Rightarrow> get_request \<Rightarrow> hosted \<Rightarrow> api_error + contents" where
  "hosted_getContent token req r =
     (case store r (g_owner req, g_repo req, g_ref req, g_path req) of
        None \<Rightarrow> Inl (ApiError (Some 404) ''Not Found'')
      | Some (c, n) \<Rightarrow>
          Inr (Object \<lparr>item_type = ''file'', item_path = g_path req, item_sha = marker_of n,
                       item_content = Some c, item_encoding = Some ''base64''\<rparr>))"

definition accept :: "put_request \<Rightarrow> hosted \<Rightarrow> (api_error + commit) \<times> hosted" where
  "accept req r =
     (let n = revisions r in
      (Inr \<lparr>commit_sha = Some (marker_of n),
            commit_html_url = Some (''commit/'' @ marker_of n),
            commit_message = Some (p_message req)\<rparr>,
       r\<lparr>store := (store r)((p_owner req, p_repo req, p_branch req, p_path req) \<mapsto> (p_content req, n)),
         revisions := Suc n\<rparr>))"

definition reject :: "hosted \<Rightarrow> (api_error + commit) \<times> hosted" where
  "reject r = (Inl (ApiError (Some 409) ''Conflict''), r)"

definition hosted_createOrUpdate :: "string \<Rightarrow> put_request \<Rightarrow> hosted \<Rightarrow> (api_error + commit) \<times> hosted" where
  "hosted_createOrUpdate token req r =
     (case p_sha req of
        None \<Rightarrow> accept req r
      | Some m \<Rightarrow>
          (case store r (p_owner req, p_repo req, p_branch req, p_path req) of
             None \<Rightarrow> reject r
           | Some (c, n) \<Rightarrow> if m = marker_of n then accept req r else reject r))"

definition hosted_api :: "hosted api" where
  "hosted_api = \<lparr>getContent = hosted_getContent,
                 createOrUpdateFileContents = hosted_createOrUpdate\<rparr>"

text \<open>Every revision in the store has been issued: its number is below the next one.\<close>

definition issued :: "hosted \<Rightarrow> bool" where
  "issued r = (\<forall>loc c n. store r loc = Some (c, n) \<longrightarrow> n < revisions r)"

text \<open>
  An execution against the service: a sequence of the client's two writing operations,
  each by some client, run one after the other. \<open>perform\<close> is one step; \<open>run\<close> returns
  the result of every step and the last world.
\<close>

datatype op =
    Checkin client string string string string string
  | CreateFile client string string string string

fun perform :: "runtime \<Rightarrow> op \<Rightarrow> hosted world \<Rightarrow> (error + CommitResult) \<times> hosted world" where
  "perform rt (Checkin cl path content message sha branch) w =
     checkin rt hosted_api cl path content message sha branch w"
| "perform rt (CreateFile cl path content message branch) w =
     createFile rt hosted_api cl path content message branch w"

fun run :: "runtime \<Rightarrow> op list \<Rightarrow> hosted world \<Rightarrow> (error + CommitResult) list \<times> hosted world" where
  "run rt [] w = ([], w)"
| "run rt (x # xs) w =
     (case perform rt x w of
        (res, w') \<Rightarrow> (case run rt xs w' of (rs, w'') \<Rightarrow> (res # rs, w'')))"

text \<open>The request an operation sends.\<close>

fun request_of :: "runtime \<Rightarrow> op \<Rightarrow> put_request" where
  "request_of rt (Checkin cl path content message sha branch) =
     \<lparr>p_owner = owner cl, p_repo = repo cl, p_path = path, p_message = message,
      p_content = base64_encode rt content, p_sha = Some sha, p_branch = branch\<rparr>"
| "request_of rt (CreateFile cl path content message branch) =
     \<lparr>p_owner = owner cl, p_repo = repo cl, p_path = path, p_message = message,
      p_content = base64_encode rt content, p_sha = None, p_branch = branch\<rparr>"

fun client_of :: "op \<Rightarrow> client" where
  "client_of (Checkin cl path content message sha branch) = cl"
| "client_of (CreateFile cl path content message branch) = cl"

section \<open>Instances for the examples\<close>
text \<open>A service double that gives one fixed answer to every read and refuses every write.\<close>
definition answering :: "api_error + contents \<Rightarrow> unit api" where
  "answering response =
     \<lparr>getContent = (\<lambda>token req r. response),
      createOrUpdateFileContents = (\<lambda>token req r. (Inl (ApiError (Some 403) ''Forbidden''), r))\<rparr>"
text \<open>Base64 on byte strings, for the runtime of the examples.\<close>
definition alphabet :: string where
  "alphabet = ''ABCDEFGHIJKLMNOPQRSTUVWXYZabcdefghijklmnopqrstuvwxyz0123456789+/''"
fun encode_bytes :: "nat list \<Rightarrow> string" where
  "encode_bytes (a # b # c # r) =
     [alphabet ! (a div 4), alphabet ! (a mod 4 * 16 + b div 16),
      alphabet ! (b mod 16 * 4 + c div 64), alphabet ! (c mod 64)] @ encode_bytes r"
| "encode_bytes [a, b] =
     [alphabet ! (a div 4), alphabet ! (a mod 4 * 16 + b div 16), alphabet ! (b mod 16 * 4),
      CHR ''='']"
| "encode_bytes [a] = [alphabet ! (a div 4), alphabet ! (a mod 4 * 16), CHR ''='', CHR ''='']"
| "encode_bytes [] = []"
fun decode_sextets :: "nat list \<Rightarrow> nat list" where
  "decode_sextets (a # b # c # d # r) =
     [a * 4 + b div 16, b mod 16 * 16 + c div 4, c mod 4 * 64 + d] @ decode_sextets r"
| "decode_sextets [a, b, c] = [a * 4 + b div 16, b mod 16 * 16 + c div 4]"
| "decode_sextets [a, b] = [a * 4 + b div 16]"
| "decode_sextets _ = []"
fun index_of :: "'a \<Rightarrow> 'a list \<Rightarrow> nat option" where
  "index_of x [] = None"
| "index_of x (y # ys) = (if x = y then Some 0 else map_option Suc (index_of x ys))"
definition b64_encode :: "string \<Rightarrow> string" where
  "b64_encode s = encode_bytes (map of_char s)"
definition b64_decode :: "string \<Rightarrow> string" where
  "b64_decode s = map char_of (decode_sextets (List.map_filter (\<lambda>c. index_of c alphabet) s))"
text \<open>
  Two sidecars of the examples: \<open>demo_meta\<close> holds the current revision marker of the
  remote file, \<open>stale_meta\<close> an older one. The runtime of the examples reads them from
  the two texts below and writes a sidecar as a line of its fields.
\<close>
definition demo_meta :: meta where
  "demo_meta = \<lparr>m_path = ''index.html'', m_sha = marker_of 1, m_branch = Some ''dev'',
                 checkedOutAt = ''2024-05-01T09:00:00.000Z'', lastCommit = None,
                 lastUpdatedAt = None\<rparr>"
definition stale_meta :: meta where
  "stale_meta = demo_meta\<lparr>m_sha := marker_of 0\<rparr>"
definition show_meta :: "meta \<Rightarrow> string" where
  "show_meta m =
     ''path='' @ m_path m @ '' sha='' @ m_sha m @ '' branch='' @ or_else (m_branch m) [] @
     '' checkedOutAt='' @ checkedOutAt m @ '' lastCommit='' @ or_else (lastCommit m) [] @
     '' lastUpdatedAt='' @ or_else (lastUpdatedAt m) []"
definition demo_rt :: runtime where
  "demo_rt = \<lparr>base64_decode = b64_decode, base64_encode = b64_encode,
              JSON_parse = map_of [(''demo'', demo_meta), (''stale'', stale_meta)],
              JSON_stringify = show_meta\<rparr>"
text \<open>
  The world of the examples. The remote file \<open>index.html\<close> holds "hi" on the branches
  \<open>main\<close> and \<open>dev\<close>, both at revision 1, and two revisions have been issued. The local
  file \<open>index.html\<close> has the sidecar \<open>demo_meta\<close>, the local file \<open>old.html\<close> the sidecar
  \<open>stale_meta\<close>, and \<open>new.html\<close> has none.
\<close>
definition demo_hosted :: hosted where
  "demo_hosted =
     \<lparr>store = [(''leeasling-gradial'', ''grady-challenge'', ''main'', ''index.html'') \<mapsto> (''aGk='', 1),
               (''leeasling-gradial'', ''grady-challenge'', ''dev'', ''index.html'') \<mapsto> (''aGk='', 1)],
      revisions = 2\<rparr>"
definition demo_disk :: "string \<rightharpoonup> string" where
  "demo_disk = [''index.html'' \<mapsto> ''hi!'', ''index.html.meta.json'' \<mapsto> ''demo'',
                ''old.html'' \<mapsto> ''ho'', ''old.html.meta.json'' \<mapsto> ''stale'',
                ''new.html'' \<mapsto> ''new'']"
definition demo_world :: "'r \<Rightarrow> 'r world" where
  "demo_world r =
     \<lparr>environ = [''GITHUB_TOKEN'' \<mapsto> ''secret''], disk = demo_disk,
      clock = ''2024-05-01T12:00:00.000Z'', remote = r, calls = [], console = []\<rparr>"
definition demo_client :: client where
  "demo_client = \<lparr>octokit = ''secret'', owner = ''leeasling-gradial'', repo = ''grady-challenge''\<rparr>"

section \<open>Properties of the string functions\<close>

lemma split_from_Nil: "split_from sep piece [] = [piece]"
  by (subst split_from.simps) simp

lemma split_from_hit:
  "s \<noteq> [] \<Longrightarrow> sep \<noteq> [] \<Longrightarrow> prefix sep s \<Longrightarrow>
   split_from sep piece s = piece # split_from sep [] (drop (length sep) s)"
  by (subst split_from.simps) simp

lemma split_from_miss:
  "s \<noteq> [] \<Longrightarrow> \<not> prefix sep s \<Longrightarrow>
   split_from sep piece s = split_from sep (piece @ [hd s]) (tl s)"
  by (subst split_from.simps) simp

lemma split_from_not_Nil: "split_from sep piece s \<noteq> []"
  by (induction sep piece s rule: split_from.induct) (subst split_from.simps, simp)

lemma replace_all_Nil: "replace_all f r [] = []"
  by (subst replace_all.simps) simp

lemma replace_all_hit:
  "s \<noteq> [] \<Longrightarrow> f \<noteq> [] \<Longrightarrow> prefix f s \<Longrightarrow>
   replace_all f r s = r @ replace_all f r (drop (length f) s)"
  by (subst replace_all.simps) simp

lemma replace_all_miss:
  "s \<noteq> [] \<Longrightarrow> \<not> prefix f s \<Longrightarrow> replace_all f r s = hd s # replace_all f r (tl s)"
  by (subst replace_all.simps) simp

lemma replace_all_empty_find: "replace_all [] r s = s"
  by (induction s) (subst replace_all.simps, simp)+

lemma join_Cons: "ys \<noteq> [] \<Longrightarrow> join sep (x # ys) = x @ sep @ join sep ys"
  by (cases ys) simp_all

lemma join_split_from:
  "sep \<noteq> [] \<Longrightarrow> join r (split_from sep piece s) = piece @ replace_all sep r s"
proof (induction sep piece s rule: split_from.induct)
  case (1 sep piece s)
  show ?case
  proof (cases "s = []")
    case True
    then show ?thesis by (simp add: split_from_Nil replace_all_Nil)
  next
    case False
    show ?thesis
    proof (cases "prefix sep s")
      case True
      with 1(1) False 1(3)
      have "join r (split_from sep [] (drop (length sep) s)) = replace_all sep r (drop (length sep) s)"
        by simp
      with True False 1(3) show ?thesis
        by (simp add: split_from_hit replace_all_hit join_Cons split_from_not_Nil)
    next
      case pf: False
      with 1(2) False 1(3)
      have "join r (split_from sep (piece @ [hd s]) (tl s)) = (piece @ [hd s]) @ replace_all sep r (tl s)"
        by simp
      with pf False show ?thesis
        by (simp add: split_from_miss replace_all_miss)
    qed
  qed
qed

lemma join_split: "f \<noteq> [] \<Longrightarrow> join r (split s f) = replace_all f r s"
  by (simp add: split_def join_split_from)

lemma replace_all_absent: "\<not> sublist f s \<Longrightarrow> replace_all f r s = s"
proof (induction s)
  case Nil
  show ?case by (simp add: replace_all_Nil)
next
  case (Cons c s)
  from Cons.prems have np: "\<not> prefix f (c # s)"
    using prefix_imp_sublist by blast
  from Cons.prems have "\<not> sublist f s"
    by (meson sublist_Cons_right)
  with Cons.IH np show ?case by (simp add: replace_all_miss)
qed

section \<open>Properties of the transformations\<close>

lemma find_replace_content:
  "fst (find_replace options (c, m, out)) = replaced options c"
  by (simp add: find_replace_def replaced_def join_split replace_all_empty_find Let_def
      split: option.splits)

lemma find_replace_modified:
  "fst (snd (find_replace options (c, m, out))) = (m \<or> replaced options c \<noteq> c)"
  by (auto simp add: find_replace_def replaced_def join_split replace_all_empty_find Let_def
      split: option.splits)

lemma append_text_content:
  "fst (append_text options (c, m, out)) = c @ or_else (up_append options) []"
  by (simp add: append_text_def split: option.splits)

lemma append_text_modified:
  "fst (snd (append_text options (c, m, out))) = (m \<or> truthy (up_append options))"
  by (simp add: append_text_def split: option.splits)

lemma prepend_text_content:
  "fst (prepend_text options (c, m, out)) = or_else (up_prepend options) [] @ c"
  by (simp add: prepend_text_def split: option.splits)

lemma prepend_text_modified:
  "fst (snd (prepend_text options (c, m, out))) = (m \<or> truthy (up_prepend options))"
  by (simp add: prepend_text_def split: option.splits)

lemma changes_iff:
  "changes options c =
     (replaced options c \<noteq> c \<or> truthy (up_append options) \<or> truthy (up_prepend options))"
  by (cases "up_append options"; cases "up_prepend options") (auto simp add: changes_def Let_def)

lemma transformations_eq:
  "\<exists>out. transformations options c = (transformed options c, changes options c, out)"
proof -
  obtain c1 m1 o1 where e1: "find_replace options (c, False, []) = (c1, m1, o1)"
    by (cases "find_replace options (c, False, [])") auto
  obtain c2 m2 o2 where e2: "append_text options (c1, m1, o1) = (c2, m2, o2)"
    by (cases "append_text options (c1, m1, o1)") auto
  obtain c3 m3 o3 where e3: "prepend_text options (c2, m2, o2) = (c3, m3, o3)"
    by (cases "prepend_text options (c2, m2, o2)") auto
  have c1: "c1 = replaced options c" and m1: "m1 = (replaced options c \<noteq> c)"
    using find_replace_content[of options c False "[]"]
      find_replace_modified[of options c False "[]"] by (simp_all add: e1)
  have c2: "c2 = c1 @ or_else (up_append options) []"
    and m2: "m2 = (m1 \<or> truthy (up_append options))"
    using append_text_content[of options c1 m1 o1]
      append_text_modified[of options c1 m1 o1] by (simp_all add: e2)
  have c3: "c3 = or_else (up_prepend options) [] @ c2"
    and m3: "m3 = (m2 \<or> truthy (up_prepend options))"
    using prepend_text_content[of options c2 m2 o2]
      prepend_text_modified[of options c2 m2 o2] by (simp_all add: e3)
  have "transformations options c = (c3, m3, o3)"
    by (simp add: transformations_def e1 e2 e3)
  moreover have "c3 = transformed options c"
    by (simp add: c3 c2 c1 transformed_def)
  moreover have "m3 = changes options c"
    by (simp add: m3 m2 m1 changes_iff)
  ultimately show ?thesis by simp
qed

section \<open>Properties of the commands\<close>

lemma print_fields:
  "disk (print l w) = disk w" "calls (print l w) = calls w" "remote (print l w) = remote w"
  "environ (print l w) = environ w" "clock (print l w) = clock w"
  by (simp_all add: print_def)

lemma getClient_Inr: "fst (getClient w) = Inr cl \<Longrightarrow> getClient w = (Inr cl, w)"
  by (auto simp add: getClient_def Let_def split: option.splits if_splits)

lemma getClient_Inl: "fst (getClient w) = Inl e \<Longrightarrow>
  (\<exists>w'. getClient w = (Inl e, w') \<and> disk w' = disk w \<and> calls w' = calls w \<and> remote w' = remote w)"
  by (auto simp add: getClient_def Let_def print_def split: option.splits if_splits)

lemma getClient_token:
  "truthy (environ w ''GITHUB_TOKEN'') \<Longrightarrow>
   getClient w = (Inr \<lparr>octokit = the (environ w ''GITHUB_TOKEN''),
                        owner = or_else (environ w ''GITHUB_OWNER'') ''leeasling-gradial'',
                        repo = or_else (environ w ''GITHUB_REPO'') ''grady-challenge''\<rparr>, w)"
  by (cases "environ w ''GITHUB_TOKEN''") (simp_all add: getClient_def Let_def)

lemma checkout_world:
  "snd (checkout rt a cl path branch w) =
     w\<lparr>calls := calls w @ [GetContent \<lparr>g_owner = owner cl, g_repo = repo cl, g_path = path, g_ref = branch\<rparr>]\<rparr>"
  by (simp add: checkout_def repos_getContent_def)

lemma checkout_print:
  "fst (checkout rt a cl path branch (print l w)) = fst (checkout rt a cl path branch w)"
  by (simp add: checkout_def repos_getContent_def print_def)

lemma checkin_eq:
  "checkin rt a cl path content message sha branch w =
     (let req = \<lparr>p_owner = owner cl, p_repo = repo cl, p_path = path, p_message = message,
                 p_content = base64_encode rt content, p_sha = Some sha, p_branch = branch\<rparr>;
          ans = createOrUpdateFileContents a (octokit cl) req (remote w)
      in (commit_result message (fst ans),
          w\<lparr>remote := snd ans, calls := calls w @ [CreateOrUpdate req]\<rparr>))"
  by (simp add: checkin_def repos_createOrUpdateFileContents_def Let_def split: prod.splits)

lemma createFile_eq:
  "createFile rt a cl path content message branch w =
     (let req = \<lparr>p_owner = owner cl, p_repo = repo cl, p_path = path, p_message = message,
                 p_content = base64_encode rt content, p_sha = None, p_branch = branch\<rparr>;
          ans = createOrUpdateFileContents a (octokit cl) req (remote w)
      in (commit_result message (fst ans),
          w\<lparr>remote := snd ans, calls := calls w @ [CreateOrUpdate req]\<rparr>))"
  by (simp add: createFile_def repos_createOrUpdateFileContents_def Let_def split: prod.splits)

lemma update_body_disk: "disk (snd (update_body rt a cl file options w)) = disk w"
proof -
  obtain res w1 where co: "checkout rt a cl file (up_branch options) (print (CheckingOut file) w) = (res, w1)"
    by (cases "checkout rt a cl file (up_branch options) (print (CheckingOut file) w)") auto
  from co have "w1 = snd (checkout rt a cl file (up_branch options) (print (CheckingOut file) w))"
    by simp
  then have d1: "disk w1 = disk w"
    by (simp add: checkout_world print_fields)
  show ?thesis
  proof (cases res)
    case (Inl e)
    then show ?thesis unfolding update_body_def co by (simp add: d1)
  next
    case (Inr fc)
    obtain c m out where t: "transformations options (fc_content fc) = (c, m, out)"
      by (cases "transformations options (fc_content fc)") auto
    show ?thesis unfolding update_body_def co
      by (simp add: Inr t d1 print_fields checkin_eq Let_def split: sum.splits)
  qed
qed

lemma catch_exit_disk: "disk (snd (catch_exit x)) = disk (snd x)"
  by (cases x rule: catch_exit.cases) (simp_all add: print_def)

lemma catch_exit_calls: "calls (snd (catch_exit x)) = calls (snd x)"
  by (cases x rule: catch_exit.cases) (simp_all add: print_def)

lemma catch_exit_fst: "fst (catch_exit x) = fst x"
  by (cases x rule: catch_exit.cases) simp_all

lemma writeFileSync_fields:
  "disk (writeFileSync p s w) = (disk w)(p \<mapsto> s)" "calls (writeFileSync p s w) = calls w"
  "remote (writeFileSync p s w) = remote w" "clock (writeFileSync p s w) = clock w"
  by (simp_all add: writeFileSync_def)

lemma or_else_branch: "or_else flag (or_else recorded ''main'') = branch_non_empty flag recorded"
  by (cases flag; cases recorded) (simp_all add: branch_non_empty_def branch_as_stated_def)

lemma meta_updated:
  "meta\<lparr>m_sha := s, lastCommit := u, lastUpdatedAt := t\<rparr> =
     \<lparr>m_path = m_path meta, m_sha = s, m_branch = m_branch meta,
      checkedOutAt = checkedOutAt meta, lastCommit = u, lastUpdatedAt = t\<rparr>"
  by (cases meta) simp

text \<open>The checkin command once the local file and its sidecar have been read.\<close>

lemma checkin_body_sent:
  assumes "disk w file = Some content" and "disk w (file @ ''.meta.json'') = Some text"
    and "JSON_parse rt text = Some meta"
  shows "calls (snd (checkin_body rt a cl file options w)) =
           calls w @ [CreateOrUpdate
             \<lparr>p_owner = owner cl, p_repo = repo cl, p_path = m_path meta,
              p_message = ci_message options, p_content = base64_encode rt content,
              p_sha = Some (m_sha meta),
              p_branch = branch_non_empty (ci_branch options) (m_branch meta)\<rparr>]"
  using assms
  by (simp add: checkin_body_def checkin_eq Let_def print_fields writeFileSync_fields
      or_else_branch split: sum.splits)

lemma checkin_body_rejected:
  assumes "disk w file = Some content" and "disk w (file @ ''.meta.json'') = Some text"
    and "JSON_parse rt text = Some meta"
    and "fst (createOrUpdateFileContents a (octokit cl)
             \<lparr>p_owner = owner cl, p_repo = repo cl, p_path = m_path meta,
              p_message = ci_message options, p_content = base64_encode rt content,
              p_sha = Some (m_sha meta),
              p_branch = branch_non_empty (ci_branch options) (m_branch meta)\<rparr> (remote w)) = Inl e"
  shows "fst (checkin_body rt a cl file options w) = Inl (RequestError e)"
    and "disk (snd (checkin_body rt a cl file options w)) = disk w"
  using assms
  by (simp_all add: checkin_body_def checkin_eq Let_def print_fields writeFileSync_fields
      or_else_branch split: sum.splits)

lemma checkin_body_accepted:
  assumes "disk w file = Some content" and "disk w (file @ ''.meta.json'') = Some text"
    and "JSON_parse rt text = Some meta"
    and "fst (createOrUpdateFileContents a (octokit cl)
             \<lparr>p_owner = owner cl, p_repo = repo cl, p_path = m_path meta,
              p_message = ci_message options, p_content = base64_encode rt content,
              p_sha = Some (m_sha meta),
              p_branch = branch_non_empty (ci_branch options) (m_branch meta)\<rparr> (remote w)) = Inr c"
  shows "fst (checkin_body rt a cl file options w) = Inr ()"
    and "disk (snd (checkin_body rt a cl file options w)) =
           (disk w)(file @ ''.meta.json'' \<mapsto> JSON_stringify rt
              \<lparr>m_path = m_path meta, m_sha = or_else (commit_sha c) [],
               m_branch = m_branch meta, checkedOutAt = checkedOutAt meta,
               lastCommit = Some (or_else (commit_html_url c) []),
               lastUpdatedAt = Some (clock w)\<rparr>)"
  using assms
  by (simp_all add: checkin_body_def checkin_eq Let_def print_fields writeFileSync_fields
      or_else_branch meta_updated split: sum.splits)

lemma checkin_body_missing:
  assumes "disk w file = None \<or> disk w (file @ ''.meta.json'') = None"
  shows "fst (checkin_body rt a cl file options w) =
           Inl (if disk w file = None then LocalFileNotFound file
                else MetadataNotFound (file @ ''.meta.json''))"
    and "snd (checkin_body rt a cl file options w) = w"
  using assms by (auto simp add: checkin_body_def Let_def split: option.splits)

lemma checkin_action_eq:
  "fst (getClient w) = Inr cl \<Longrightarrow>
   checkin_action rt a file options w = catch_exit (checkin_body rt a cl file options w)"
  by (simp add: checkin_action_def getClient_Inr)

lemma update_action_eq:
  "fst (getClient w) = Inr cl \<Longrightarrow>
   update_action rt a file options w = catch_exit (update_body rt a cl file options w)"
  by (simp add: update_action_def getClient_Inr)

lemma catch_exit_remote: "remote (snd (catch_exit x)) = remote (snd x)"
  by (cases x rule: catch_exit.cases) (simp_all add: print_def)

lemma update_body_sent:
  assumes "fst (checkout rt a cl file (up_branch options) (print (CheckingOut file) w)) = Inr fc"
  shows "calls (snd (update_body rt a cl file options w)) =
           calls w @
           GetContent \<lparr>g_owner = owner cl, g_repo = repo cl, g_path = file,
                       g_ref = up_branch options\<rparr> #
           (if changes options (fc_content fc)
            then [CreateOrUpdate
                    \<lparr>p_owner = owner cl, p_repo = repo cl, p_path = file,
                     p_message = up_message options,
                     p_content = base64_encode rt (transformed options (fc_content fc)),
                     p_sha = Some (fc_sha fc), p_branch = up_branch options\<rparr>]
            else [])"
    and "\<not> changes options (fc_content fc) \<Longrightarrow>
           fst (update_body rt a cl file options w) = Inr ()"
proof -
  obtain w1 where co: "checkout rt a cl file (up_branch options) (print (CheckingOut file) w) = (Inr fc, w1)"
    using assms by (cases "checkout rt a cl file (up_branch options) (print (CheckingOut file) w)") auto
  then have "w1 = snd (checkout rt a cl file (up_branch options) (print (CheckingOut file) w))"
    by simp
  then have c1: "calls w1 = calls w @ [GetContent \<lparr>g_owner = owner cl, g_repo = repo cl,
      g_path = file, g_ref = up_branch options\<rparr>]"
    by (simp add: checkout_world print_fields)
  obtain out where t: "transformations options (fc_content fc) =
      (transformed options (fc_content fc), changes options (fc_content fc), out)"
    using transformations_eq by blast
  show "calls (snd (update_body rt a cl file options w)) =
           calls w @
           GetContent \<lparr>g_owner = owner cl, g_repo = repo cl, g_path = file,
                       g_ref = up_branch options\<rparr> #
           (if changes options (fc_content fc)
            then [CreateOrUpdate
                    \<lparr>p_owner = owner cl, p_repo = repo cl, p_path = file,
                     p_message = up_message options,
                     p_content = base64_encode rt (transformed options (fc_content fc)),
                     p_sha = Some (fc_sha fc), p_branch = up_branch options\<rparr>]
            else [])"
    unfolding update_body_def co
    by (simp add: t c1 print_fields checkin_eq Let_def split: sum.splits)
  show "\<not> changes options (fc_content fc) \<Longrightarrow>
           fst (update_body rt a cl file options w) = Inr ()"
    unfolding update_body_def co by (simp add: t)
qed

lemma absent_no_change:
  assumes "\<forall>f. up_find options = Some f \<longrightarrow> \<not> sublist f content"
    and "up_append options = None" and "up_prepend options = None"
  shows "\<not> changes options content"
  using assms
  by (auto simp add: changes_iff replaced_def replace_all_absent split: option.splits)

lemma find_replace_skipped:
  "\<not> (truthy (up_find options) \<and> up_replace options \<noteq> None) \<Longrightarrow> find_replace options st = st"
  by (cases st) (auto simp add: find_replace_def split: option.splits)

lemma transformations_skipped:
  assumes "\<not> (truthy (up_find options) \<and> up_replace options \<noteq> None)"
  shows "transformations options c =
         transformations (options\<lparr>up_find := None, up_replace := None\<rparr>) c"
proof -
  have "find_replace (options\<lparr>up_find := None, up_replace := None\<rparr>) (c, False, []) = (c, False, [])"
    by (simp add: find_replace_def)
  with assms show ?thesis
    by (simp add: transformations_def find_replace_skipped append_text_def prepend_text_def)
qed

section \<open>Properties of the hosting service\<close>

lemma marker_of_inj: "(marker_of m = marker_of n) = (m = n)"
  by (simp add: marker_of_def)

text \<open>What one write does to the store of the service.\<close>

lemma hosted_write:
  assumes "issued r" and "hosted_createOrUpdate token req r = (ans, r')"
  shows "issued r'"
    and "store r loc = Some (c, k) \<Longrightarrow> \<exists>c' k'. store r' loc = Some (c', k') \<and> k \<le> k'"
    and "\<not> isl ans \<Longrightarrow>
           store r' (p_owner req, p_repo req, p_branch req, p_path req)
             = Some (p_content req, revisions r)"
    and "\<not> isl ans \<Longrightarrow> p_sha req = Some m \<Longrightarrow>
           \<exists>c0 n. store r (p_owner req, p_repo req, p_branch req, p_path req) = Some (c0, n) \<and>
                  m = marker_of n \<and> n < revisions r"
proof -
  from assms(2) consider (acc) "(ans, r') = accept req r" | (rej) "(ans, r') = reject r"
    by (auto simp add: hosted_createOrUpdate_def split: option.splits if_splits)
  then show "issued r'"
  proof cases
    case acc
    with assms(1) show ?thesis
      by (fastforce simp add: accept_def issued_def Let_def split: if_splits)
  next
    case rej
    with assms(1) show ?thesis by (simp add: reject_def)
  qed
  show "\<exists>c' k'. store r' loc = Some (c', k') \<and> k \<le> k'" if s: "store r loc = Some (c, k)"
  proof -
    from assms(2) consider (acc) "(ans, r') = accept req r" | (rej) "(ans, r') = reject r"
      by (auto simp add: hosted_createOrUpdate_def split: option.splits if_splits)
    then show ?thesis
    proof cases
      case acc
      from assms(1) s have "k < revisions r" unfolding issued_def by blast
      with acc s show ?thesis by (auto simp add: accept_def Let_def)
    next
      case rej
      with s show ?thesis by (simp add: reject_def)
    qed
  qed
  show "store r' (p_owner req, p_repo req, p_branch req, p_path req)
             = Some (p_content req, revisions r)" if "\<not> isl ans"
    using that assms(2)
    by (auto simp add: hosted_createOrUpdate_def accept_def reject_def Let_def
        split: option.splits if_splits)
  show "\<exists>c0 n. store r (p_owner req, p_repo req, p_branch req, p_path req) = Some (c0, n) \<and>
                  m = marker_of n \<and> n < revisions r" if "\<not> isl ans" "p_sha req = Some m"
    using that assms
    by (auto simp add: hosted_createOrUpdate_def accept_def reject_def Let_def issued_def
        split: option.splits if_splits)
qed

lemma isl_commit_result: "isl (commit_result message ans) = isl ans"
  by (cases ans) simp_all

lemma perform_hosted:
  assumes "hosted_createOrUpdate (octokit (client_of x)) (request_of rt x) (remote w) = (ans, r')"
  shows "remote (snd (perform rt x w)) = r'" and "isl (fst (perform rt x w)) = isl ans"
  using assms
  by (cases x; simp add: checkin_eq createFile_eq Let_def hosted_api_def isl_commit_result)+

lemma perform_issued:
  assumes "issued (remote w)"
  shows "issued (remote (snd (perform rt x w)))"
proof -
  obtain ans r' where h: "hosted_createOrUpdate (octokit (client_of x)) (request_of rt x) (remote w) = (ans, r')"
    by (cases "hosted_createOrUpdate (octokit (client_of x)) (request_of rt x) (remote w)") auto
  from hosted_write(1)[OF assms h] perform_hosted(1)[OF h] show ?thesis by simp
qed

lemma perform_keeps:
  assumes "issued (remote w)" and "store (remote w) loc = Some (c, k)"
  shows "\<exists>c' k'. store (remote (snd (perform rt x w))) loc = Some (c', k') \<and> k \<le> k'"
proof -
  obtain ans r' where h: "hosted_createOrUpdate (octokit (client_of x)) (request_of rt x) (remote w) = (ans, r')"
    by (cases "hosted_createOrUpdate (octokit (client_of x)) (request_of rt x) (remote w)") auto
  from hosted_write(2)[OF assms(1) h assms(2)] perform_hosted(1)[OF h] show ?thesis by simp
qed

lemma checkin_superseded:
  assumes "store (remote w) (owner cl, repo cl, branch, path) = Some (c, k)" and "n < k"
  shows "isl (fst (perform rt (Checkin cl path content message (marker_of n) branch) w))"
  using assms
  by (simp add: checkin_eq Let_def hosted_api_def hosted_createOrUpdate_def reject_def
      marker_of_inj)

lemma checkin_accepted:
  assumes "issued (remote w)"
    and "\<not> isl (fst (perform rt (Checkin cl path content message sha branch) w))"
  shows "\<exists>c' n. sha = marker_of n \<and> n < revisions (remote w) \<and>
           store (remote (snd (perform rt (Checkin cl path content message sha branch) w)))
             (owner cl, repo cl, branch, path) = Some (c', revisions (remote w))"
proof -
  let ?x = "Checkin cl path content message sha branch"
  obtain ans r' where h: "hosted_createOrUpdate (octokit (client_of ?x)) (request_of rt ?x) (remote w) = (ans, r')"
    by (cases "hosted_createOrUpdate (octokit (client_of ?x)) (request_of rt ?x) (remote w)") auto
  note r = perform_hosted(1)[OF h] and i = perform_hosted(2)[OF h]
  from i assms(2) have ok: "\<not> isl ans" by simp
  from hosted_write(3)[OF assms(1) h ok] hosted_write(4)[OF assms(1) h ok, of sha] r
  show ?thesis by auto
qed

lemma run_Cons:
  "fst (run rt (x # xs) w) = fst (perform rt x w) # fst (run rt xs (snd (perform rt x w)))"
  by (simp split: prod.splits)

lemma run_superseded:
  assumes "issued (remote w)"
    and "store (remote w) (owner cl, repo cl, branch, path) = Some (c, k)" and "n < k"
    and "j < length ops"
    and "ops ! j = Checkin cl' path content message (marker_of n) branch"
    and "owner cl' = owner cl" and "repo cl' = repo cl"
  shows "isl (fst (run rt ops w) ! j)"
  using assms
proof (induction ops arbitrary: w j c k)
  case Nil
  then show ?case by simp
next
  case (Cons x xs)
  show ?case
  proof (cases j)
    case 0
    from Cons.prems(2) Cons.prems(6) Cons.prems(7)
    have "store (remote w) (owner cl', repo cl', branch, path) = Some (c, k)" by simp
    from checkin_superseded[OF this Cons.prems(3), of rt content message] Cons.prems(5) 0
    show ?thesis by (simp add: run_Cons del: run.simps)
  next
    case (Suc j')
    let ?w = "snd (perform rt x w)"
    from perform_keeps[OF Cons.prems(1) Cons.prems(2), of rt x]
    obtain c' k' where s: "store (remote ?w) (owner cl, repo cl, branch, path) = Some (c', k')"
      and le: "k \<le> k'" by blast
    from le Cons.prems(3) have lt: "n < k'" by simp
    from Cons.prems Suc have j': "j' < length xs"
      and o: "xs ! j' = Checkin cl' path content message (marker_of n) branch" by simp_all
    from Cons.IH[OF perform_issued[OF Cons.prems(1)] s lt j' o Cons.prems(6) Cons.prems(7)]
    show ?thesis by (simp add: run_Cons Suc del: run.simps)
  qed
qed

lemma run_one_checkin:
  assumes "issued (remote w)"
    and "i < j" and "j < length ops"
    and "ops ! i = Checkin cl path content message sha branch"
    and "ops ! j = Checkin cl' path content' message' sha branch"
    and "owner cl' = owner cl" and "repo cl' = repo cl"
  shows "isl (fst (run rt ops w) ! i) \<or> isl (fst (run rt ops w) ! j)"
  using assms
proof (induction ops arbitrary: w i j)
  case Nil
  then show ?case by simp
next
  case (Cons x xs)
  let ?w = "snd (perform rt x w)"
  from Cons.prems(2) obtain j' where j: "j = Suc j'" by (cases j) auto
  with Cons.prems have j': "j' < length xs"
    and oj: "xs ! j' = Checkin cl' path content' message' sha branch" by simp_all
  show ?case
  proof (cases i)
    case 0
    with Cons.prems have x: "x = Checkin cl path content message sha branch" by simp
    show ?thesis
    proof (cases "isl (fst (perform rt x w))")
      case True
      with 0 show ?thesis by (simp add: run_Cons del: run.simps)
    next
      case False
      from checkin_accepted[OF Cons.prems(1) False[unfolded x]]
      obtain c' n where sha: "sha = marker_of n" and lt: "n < revisions (remote w)"
        and s: "store (remote ?w) (owner cl, repo cl, branch, path) = Some (c', revisions (remote w))"
        by (auto simp add: x)
      from run_superseded[OF perform_issued[OF Cons.prems(1)] s lt j' oj[unfolded sha]
          Cons.prems(6) Cons.prems(7)]
      show ?thesis by (simp add: run_Cons j del: run.simps)
    qed
  next
    case (Suc i')
    with Cons.prems j have "i' < j'"
      and oi: "xs ! i' = Checkin cl path content message sha branch" by simp_all
    from Cons.IH[OF perform_issued[OF Cons.prems(1)] this(1) j' oi oj Cons.prems(6) Cons.prems(7)]
    show ?thesis by (simp add: run_Cons Suc j del: run.simps)
  qed
qed

text \<open>The service starts empty, and every write keeps its revisions issued.\<close>

lemma issued_empty: "issued \<lparr>store = Map.empty, revisions = 0\<rparr>"
  by (simp add: issued_def)

section \<open>The examples\<close>

lemma demo_getClient: "fst (getClient (demo_world r)) = Inr demo_client"
  by (simp add: getClient_def demo_world_def demo_client_def)

lemma demo_world_fields:
  "disk (demo_world r) = demo_disk" "calls (demo_world r) = []" "remote (demo_world r) = r"
  "clock (demo_world r) = ''2024-05-01T12:00:00.000Z''"
  by (simp_all add: demo_world_def)

lemma demo_client_fields:
  "octokit demo_client = ''secret''" "owner demo_client = ''leeasling-gradial''"
  "repo demo_client = ''grady-challenge''"
  by (simp_all add: demo_client_def)

lemma demo_parse:
  "JSON_parse demo_rt ''demo'' = Some demo_meta" "JSON_parse demo_rt ''stale'' = Some stale_meta"
  by (simp_all add: demo_rt_def)

lemma demo_encode:
  "base64_encode demo_rt ''hi!'' = ''aGkh''" "base64_encode demo_rt ''ho'' = ''aG8=''"
  "base64_encode demo_rt ''>> Hi!'' = ''Pj4gSGkh''"
  "base64_decode demo_rt ''aGk='' = ''hi''"
  unfolding demo_rt_def by (simp, code_simp)+

lemma demo_issued: "issued demo_hosted"
  by (simp add: issued_def demo_hosted_def)

lemma demo_checkout:
  "fst (checkout demo_rt hosted_api demo_client ''index.html'' ''main'' (demo_world demo_hosted))
     = Inr \<lparr>fc_content = ''hi'', fc_sha = marker_of 1, fc_path = ''index.html'',
            fc_encoding = ''base64''\<rparr>"
  by code_simp

section \<open>The claims\<close>

subsection \<open>C1: a stale checkin leaves the sidecar as it is\<close>

text \<open>
  C1. A checkin command whose sidecar holds a revision marker that is no longer the
  current one of the remote file fails with the conflict error of the service (the
  specification's StalePrecondition), and the local files, the sidecar with its marker,
  \<open>lastCommit\<close> and \<open>lastUpdatedAt\<close> among them, stay as they were; the sidecar is
  rewritten only after the conditional update has been answered with a commit.

  For a command that has its credential, its local file and a sidecar that parses, and
  for \<open>req\<close> the conditional update it sends:
  \<^item> the service of the specification answers \<open>req\<close> with the conflict error (status 409)
    and keeps its state when the file's current marker is not the one of the sidecar;
  \<^item> whatever the service is, when it answers \<open>req\<close> with an error the command exits on
    that error, passed on as it is, and the disk is unchanged;
  \<^item> when the disk has changed, the service has answered \<open>req\<close> with a commit and the
    command has run to its end.
\<close>

theorem stale_checkin_rejected:
  assumes "fst (getClient w) = Inr cl"
    and "disk w file = Some content"
    and "disk w (file @ ''.meta.json'') = Some text"
    and "JSON_parse rt text = Some meta"
    and "req = \<lparr>p_owner = owner cl, p_repo = repo cl, p_path = m_path meta,
                p_message = ci_message options, p_content = base64_encode rt content,
                p_sha = Some (m_sha meta),
                p_branch = branch_non_empty (ci_branch options) (m_branch meta)\<rparr>"
  shows "(store r (p_owner req, p_repo req, p_branch req, p_path req) = Some (c, n) \<and>
          m_sha meta \<noteq> marker_of n \<longrightarrow>
            hosted_createOrUpdate token req r = (Inl (ApiError (Some 409) ''Conflict''), r)) \<and>
         (fst (createOrUpdateFileContents a (octokit cl) req (remote w)) = Inl e \<longrightarrow>
            fst (checkin_action rt a file options w) = Inl (RequestError e) \<and>
            disk (snd (checkin_action rt a file options w)) = disk w) \<and>
         (disk (snd (checkin_action rt a file options w)) \<noteq> disk w \<longrightarrow>
            \<not> isl (fst (createOrUpdateFileContents a (octokit cl) req (remote w))) \<and>
            fst (checkin_action rt a file options w) = Inr ())"
proof (intro conjI impI)
  assume "store r (p_owner req, p_repo req, p_branch req, p_path req) = Some (c, n) \<and>
          m_sha meta \<noteq> marker_of n"
  then show "hosted_createOrUpdate token req r = (Inl (ApiError (Some 409) ''Conflict''), r)"
    using assms(5) by (simp add: hosted_createOrUpdate_def reject_def)
next
  assume "fst (createOrUpdateFileContents a (octokit cl) req (remote w)) = Inl e"
  with assms show "fst (checkin_action rt a file options w) = Inl (RequestError e)"
    and "disk (snd (checkin_action rt a file options w)) = disk w"
    by (simp_all add: checkin_action_eq catch_exit_fst catch_exit_disk checkin_body_rejected)
next
  assume ch: "disk (snd (checkin_action rt a file options w)) \<noteq> disk w"
  show "\<not> isl (fst (createOrUpdateFileContents a (octokit cl) req (remote w)))"
  proof
    assume "isl (fst (createOrUpdateFileContents a (octokit cl) req (remote w)))"
    then obtain e' where "fst (createOrUpdateFileContents a (octokit cl) req (remote w)) = Inl e'"
      by (cases "fst (createOrUpdateFileContents a (octokit cl) req (remote w))") auto
    with assms have "disk (snd (checkin_action rt a file options w)) = disk w"
      by (simp add: checkin_action_eq catch_exit_disk checkin_body_rejected)
    with ch show False by simp
  qed
  then obtain c' where "fst (createOrUpdateFileContents a (octokit cl) req (remote w)) = Inr c'"
    by (cases "fst (createOrUpdateFileContents a (octokit cl) req (remote w))") auto
  with assms show "fst (checkin_action rt a file options w) = Inr ()"
    by (simp add: checkin_action_eq catch_exit_fst checkin_body_accepted)
qed

theorem stale_checkin_rejected_witness:
  "fst (getClient (demo_world demo_hosted)) = Inr demo_client \<and>
   disk (demo_world demo_hosted) ''old.html'' = Some ''ho'' \<and>
   disk (demo_world demo_hosted) ''old.html.meta.json'' = Some ''stale'' \<and>
   JSON_parse demo_rt ''stale'' = Some stale_meta \<and>
   store demo_hosted (''leeasling-gradial'', ''grady-challenge'', ''dev'', ''index.html'')
     = Some (''aGk='', 1) \<and>
   m_sha stale_meta \<noteq> marker_of 1 \<and>
   fst (checkin_action demo_rt hosted_api ''old.html''
          \<lparr>ci_message = ''Update content'', ci_branch = None\<rparr> (demo_world demo_hosted))
     = Inl (RequestError (ApiError (Some 409) ''Conflict'')) \<and>
   disk (snd (checkin_action demo_rt hosted_api ''old.html''
          \<lparr>ci_message = ''Update content'', ci_branch = None\<rparr> (demo_world demo_hosted)))
     = disk (demo_world demo_hosted)"
proof -
  let ?w = "demo_world demo_hosted"
  let ?o = "\<lparr>ci_message = ''Update content'', ci_branch = None\<rparr>"
  let ?req = "\<lparr>p_owner = owner demo_client, p_repo = repo demo_client,
                p_path = m_path stale_meta, p_message = ci_message ?o,
                p_content = base64_encode demo_rt ''ho'', p_sha = Some (m_sha stale_meta),
                p_branch = branch_non_empty (ci_branch ?o) (m_branch stale_meta)\<rparr>"
  have d1: "disk ?w ''old.html'' = Some ''ho''" by code_simp
  have d2: "disk ?w (''old.html'' @ ''.meta.json'') = Some ''stale''" by code_simp
  have d3: "disk ?w ''old.html.meta.json'' = Some ''stale''" by code_simp
  have s: "store demo_hosted (p_owner ?req, p_repo ?req, p_branch ?req, p_path ?req)
     = Some (''aGk='', 1)" by code_simp
  have s': "store demo_hosted (''leeasling-gradial'', ''grady-challenge'', ''dev'', ''index.html'')
     = Some (''aGk='', 1)" by code_simp
  have m: "m_sha stale_meta \<noteq> marker_of 1" by code_simp
  note th = stale_checkin_rejected[OF demo_getClient d1 d2 demo_parse(2) refl,
      where r = demo_hosted and c = "''aGk=''" and n = 1 and token = "''secret''"
        and a = hosted_api and e = "ApiError (Some 409) ''Conflict''" and options = ?o]
  from th s m have r: "hosted_createOrUpdate ''secret'' ?req demo_hosted
      = (Inl (ApiError (Some 409) ''Conflict''), demo_hosted)"
    by blast
  then have "fst (createOrUpdateFileContents hosted_api (octokit demo_client) ?req (remote ?w))
      = Inl (ApiError (Some 409) ''Conflict'')"
    by (simp add: hosted_api_def demo_client_fields demo_world_fields)
  with th have c: "fst (checkin_action demo_rt hosted_api ''old.html'' ?o ?w)
       = Inl (RequestError (ApiError (Some 409) ''Conflict'')) \<and>
     disk (snd (checkin_action demo_rt hosted_api ''old.html'' ?o ?w)) = disk ?w"
    by blast
  show ?thesis
    by (intro conjI) (rule demo_getClient d1 d3 demo_parse(2) s' m c[THEN conjunct1]
        c[THEN conjunct2])+
qed

subsection \<open>C2: one checkin for one marker\<close>

text \<open>
  C2. Against the hosting service as the specification describes it, take any execution:
  any sequence of checkins and unconditional writes, by any clients, from any state of
  the service in which every stored revision has been issued. Of two checkins in it that
  name the same revision marker for the same owner, repository, branch and path, at most
  one succeeds. And a checkin whose marker differs from the current marker of the file
  is rejected with the conflict error and leaves the service as it was.
\<close>

theorem one_checkin_per_marker:
  assumes "issued (remote w)"
  shows "(i < j \<and> j < length ops \<and>
          ops ! i = Checkin cl path content message sha branch \<and>
          ops ! j = Checkin cl' path content' message' sha branch \<and>
          owner cl' = owner cl \<and> repo cl' = repo cl \<longrightarrow>
            isl (fst (run rt ops w) ! i) \<or> isl (fst (run rt ops w) ! j)) \<and>
         (store (remote w) (owner cl, repo cl, branch, path) = Some (c, k) \<and> sha \<noteq> marker_of k \<longrightarrow>
            fst (checkin rt hosted_api cl path content message sha branch w)
              = Inl (RequestError (ApiError (Some 409) ''Conflict'')) \<and>
            remote (snd (checkin rt hosted_api cl path content message sha branch w)) = remote w)"
proof (intro conjI impI)
  assume "i < j \<and> j < length ops \<and>
          ops ! i = Checkin cl path content message sha branch \<and>
          ops ! j = Checkin cl' path content' message' sha branch \<and>
          owner cl' = owner cl \<and> repo cl' = repo cl"
  with assms show "isl (fst (run rt ops w) ! i) \<or> isl (fst (run rt ops w) ! j)"
    using run_one_checkin by blast
next
  assume h: "store (remote w) (owner cl, repo cl, branch, path) = Some (c, k) \<and> sha \<noteq> marker_of k"
  then show "fst (checkin rt hosted_api cl path content message sha branch w)
              = Inl (RequestError (ApiError (Some 409) ''Conflict''))"
    and "remote (snd (checkin rt hosted_api cl path content message sha branch w)) = remote w"
    by (simp_all add: checkin_eq Let_def hosted_api_def hosted_createOrUpdate_def reject_def)
qed

theorem one_checkin_per_marker_witness:
  "issued (remote (demo_world demo_hosted)) \<and>
   fst (run demo_rt
          [Checkin demo_client ''index.html'' ''hi!'' ''first'' (marker_of 1) ''main'',
           CreateFile demo_client ''notes.md'' ''ho'' ''second'' ''main'',
           Checkin demo_client ''index.html'' ''ho'' ''third'' (marker_of 1) ''main'']
          (demo_world demo_hosted)) ! 0
     = Inr \<lparr>cr_sha = marker_of 2, cr_url = ''commit/'' @ marker_of 2, cr_message = ''first''\<rparr> \<and>
   isl (fst (run demo_rt
          [Checkin demo_client ''index.html'' ''hi!'' ''first'' (marker_of 1) ''main'',
           CreateFile demo_client ''notes.md'' ''ho'' ''second'' ''main'',
           Checkin demo_client ''index.html'' ''ho'' ''third'' (marker_of 1) ''main'']
          (demo_world demo_hosted)) ! 2) \<and>
   fst (checkin demo_rt hosted_api demo_client ''index.html'' ''ho'' ''third'' (marker_of 0)
          ''main'' (demo_world demo_hosted))
     = Inl (RequestError (ApiError (Some 409) ''Conflict''))"
proof -
  let ?w = "demo_world demo_hosted"
  let ?ops = "[Checkin demo_client ''index.html'' ''hi!'' ''first'' (marker_of 1) ''main'',
           CreateFile demo_client ''notes.md'' ''ho'' ''second'' ''main'',
           Checkin demo_client ''index.html'' ''ho'' ''third'' (marker_of 1) ''main'']"
  have i: "issued (remote ?w)" by (simp add: demo_world_fields demo_issued)
  have f: "fst (run demo_rt ?ops ?w) ! 0
     = Inr \<lparr>cr_sha = marker_of 2, cr_url = ''commit/'' @ marker_of 2, cr_message = ''first''\<rparr>"
    by code_simp
  have p: "(0::nat) < 2 \<and> 2 < length ?ops \<and>
          ?ops ! 0 = Checkin demo_client ''index.html'' ''hi!'' ''first'' (marker_of 1) ''main'' \<and>
          ?ops ! 2 = Checkin demo_client ''index.html'' ''ho'' ''third'' (marker_of 1) ''main'' \<and>
          owner demo_client = owner demo_client \<and> repo demo_client = repo demo_client"
    by simp
  have s: "store (remote ?w) (owner demo_client, repo demo_client, ''main'', ''index.html'')
      = Some (''aGk='', 1) \<and> marker_of 0 \<noteq> marker_of 1"
    by (simp add: demo_world_fields demo_hosted_def demo_client_fields marker_of_inj)
  note th = one_checkin_per_marker[OF i, where i = 0 and j = 2 and ops = ?ops and rt = demo_rt
      and cl = demo_client and cl' = demo_client and path = "''index.html''"
      and branch = "''main''" and content' = "''ho''" and message' = "''third''"]
  from th[where sha = "marker_of 1" and content = "''hi!''" and message = "''first''"] p
  have "isl (fst (run demo_rt ?ops ?w) ! 0) \<or> isl (fst (run demo_rt ?ops ?w) ! 2)"
    by blast
  with f have l: "isl (fst (run demo_rt ?ops ?w) ! 2)" by simp
  from th[where sha = "marker_of 0" and content = "''ho''" and message = "''third''"
      and c = "''aGk=''" and k = 1] s
  have r: "fst (checkin demo_rt hosted_api demo_client ''index.html'' ''ho'' ''third'' (marker_of 0)
          ''main'' ?w) = Inl (RequestError (ApiError (Some 409) ''Conflict''))"
    by blast
  show ?thesis
    by (intro conjI) (rule i f l r)+
qed

subsection \<open>C3: the content that update submits\<close>

text \<open>
  C3. For every content and every combination of options, the content that the
  transformations of the update command produce is the content transformed as the
  specification words it: first every non-overlapping occurrence of the find text
  replaced, then the suffix appended, then the prefix prepended. Every update request
  that the command sends after a successful checkout carries the base64 encoding of that
  content, with the revision marker of the checkout as its precondition. On "hi" with
  find "h", replace "H", append "!" and prepend ">> " the result is ">> Hi!".
\<close>

theorem update_submits_transformed_content:
  "fst (transformations options content) = transformed options content \<and>
   (fst (getClient w) = Inr cl \<and>
    fst (checkout rt a cl file (up_branch options) w) = Inr fc \<and>
    CreateOrUpdate req \<in> set (drop (length (calls w)) (calls (snd (update_action rt a file options w))))
    \<longrightarrow> p_content req = base64_encode rt (transformed options (fc_content fc)) \<and>
        p_sha req = Some (fc_sha fc)) \<and>
   fst (transformations
          \<lparr>up_branch = b, up_message = m, up_find = Some ''h'', up_replace = Some ''H'',
           up_append = Some ''!'', up_prepend = Some ''>> ''\<rparr> ''hi'') = ''>> Hi!''"
proof (intro conjI impI)
  show t: "\<And>options content. fst (transformations options content) = transformed options content"
    using transformations_eq by (metis fst_conv)
  show "fst (transformations
          \<lparr>up_branch = b, up_message = m, up_find = Some ''h'', up_replace = Some ''H'',
           up_append = Some ''!'', up_prepend = Some ''>> ''\<rparr> ''hi'') = ''>> Hi!''"
    by (simp add: t transformed_def replaced_def replace_all_hit replace_all_miss replace_all_Nil)
next
  assume h: "fst (getClient w) = Inr cl \<and>
    fst (checkout rt a cl file (up_branch options) w) = Inr fc \<and>
    CreateOrUpdate req \<in> set (drop (length (calls w)) (calls (snd (update_action rt a file options w))))"
  then have h1: "fst (getClient w) = Inr cl"
    and h2: "fst (checkout rt a cl file (up_branch options) w) = Inr fc"
    and h3: "CreateOrUpdate req \<in> set (drop (length (calls w)) (calls (snd (update_action rt a file options w))))"
    by simp_all
  from h2
  have co: "fst (checkout rt a cl file (up_branch options) (print (CheckingOut file) w)) = Inr fc"
    by (simp add: checkout_print)
  from h3 have "CreateOrUpdate req \<in> set (GetContent \<lparr>g_owner = owner cl, g_repo = repo cl, g_path = file,
                       g_ref = up_branch options\<rparr> #
           (if changes options (fc_content fc)
            then [CreateOrUpdate
                    \<lparr>p_owner = owner cl, p_repo = repo cl, p_path = file,
                     p_message = up_message options,
                     p_content = base64_encode rt (transformed options (fc_content fc)),
                     p_sha = Some (fc_sha fc), p_branch = up_branch options\<rparr>]
            else []))"
    by (simp add: update_action_eq[OF h1] catch_exit_calls update_body_sent(1)[OF co])
  then show "p_content req = base64_encode rt (transformed options (fc_content fc))"
    and "p_sha req = Some (fc_sha fc)"
    by (auto split: if_splits)
qed

theorem update_submits_transformed_content_witness:
  "fst (getClient (demo_world demo_hosted)) = Inr demo_client \<and>
   fst (checkout demo_rt hosted_api demo_client ''index.html'' ''main'' (demo_world demo_hosted))
     = Inr \<lparr>fc_content = ''hi'', fc_sha = marker_of 1, fc_path = ''index.html'',
            fc_encoding = ''base64''\<rparr> \<and>
   CreateOrUpdate
     \<lparr>p_owner = ''leeasling-gradial'', p_repo = ''grady-challenge'', p_path = ''index.html'',
      p_message = ''Update content'', p_content = ''Pj4gSGkh'', p_sha = Some (marker_of 1),
      p_branch = ''main''\<rparr>
     \<in> set (drop (length (calls (demo_world demo_hosted)))
         (calls (snd (update_action demo_rt hosted_api ''index.html''
            \<lparr>up_branch = ''main'', up_message = ''Update content'', up_find = Some ''h'',
             up_replace = Some ''H'', up_append = Some ''!'', up_prepend = Some ''>> ''\<rparr>
            (demo_world demo_hosted))))) \<and>
   ''Pj4gSGkh'' = base64_encode demo_rt
      (transformed
         \<lparr>up_branch = ''main'', up_message = ''Update content'', up_find = Some ''h'',
          up_replace = Some ''H'', up_append = Some ''!'', up_prepend = Some ''>> ''\<rparr> ''hi'') \<and>
   fst (transformations
         \<lparr>up_branch = ''main'', up_message = ''Update content'', up_find = Some ''a'',
          up_replace = Some ''b'', up_append = None, up_prepend = None\<rparr> ''cat'') = ''cbt''"
proof -
  let ?w = "demo_world demo_hosted"
  let ?o = "\<lparr>up_branch = ''main'', up_message = ''Update content'', up_find = Some ''h'',
             up_replace = Some ''H'', up_append = Some ''!'', up_prepend = Some ''>> ''\<rparr>"
  let ?o2 = "\<lparr>up_branch = ''main'', up_message = ''Update content'', up_find = Some ''a'',
          up_replace = Some ''b'', up_append = None, up_prepend = None\<rparr>"
  let ?fc = "\<lparr>fc_content = ''hi'', fc_sha = marker_of 1, fc_path = ''index.html'',
            fc_encoding = ''base64''\<rparr>"
  let ?req = "\<lparr>p_owner = ''leeasling-gradial'', p_repo = ''grady-challenge'', p_path = ''index.html'',
      p_message = ''Update content'', p_content = ''Pj4gSGkh'', p_sha = Some (marker_of 1),
      p_branch = ''main''\<rparr>"
  have co: "fst (checkout demo_rt hosted_api demo_client ''index.html'' (up_branch ?o)
         ?w) = Inr ?fc"
    by code_simp
  have mem: "CreateOrUpdate ?req \<in> set (drop (length (calls ?w))
         (calls (snd (update_action demo_rt hosted_api ''index.html'' ?o ?w))))"
    by code_simp
  note th = update_submits_transformed_content[of _ _ ?w demo_client demo_rt hosted_api
      "''index.html''" ?fc ?req]
  have gc: "fst (getClient ?w) = Inr demo_client" by (rule demo_getClient)
  from th[of ?o "''hi''" "''main''" "''Update content''"] gc co mem
  have "p_content ?req = base64_encode demo_rt (transformed ?o (fc_content ?fc))"
    by blast
  then have e: "''Pj4gSGkh'' = base64_encode demo_rt (transformed ?o ''hi'')"
    by simp
  from th[of ?o2 "''cat''" "''main''" "''Update content''"]
  have "fst (transformations ?o2 ''cat'') = transformed ?o2 ''cat''"
    by blast
  moreover have "transformed ?o2 ''cat'' = ''cbt''" by code_simp
  ultimately have t: "fst (transformations ?o2 ''cat'') = ''cbt''" by simp
  show ?thesis
    by (intro conjI) (rule demo_getClient demo_checkout mem e t)+
qed

subsection \<open>C4: update checks in when a transformation changed the content\<close>

text \<open>
  C4. For an update command that has its credential and whose checkout succeeds:
  \<^item> when no transformation changed the content, the command runs to its end without an
    error and the only request it sends is the checkout;
  \<^item> when at least one transformation changed the content, it sends the checkout and then
    one conditional update, the checkin;
  \<^item> no transformation changes the content when the find text (if one is given) does not
    occur in the content and neither append nor prepend is given.
\<close>

theorem update_checkin_iff_changed:
  assumes "fst (getClient w) = Inr cl"
    and "fst (checkout rt a cl file (up_branch options) w) = Inr fc"
  shows
   "(\<not> changes options (fc_content fc) \<longrightarrow>
       fst (update_action rt a file options w) = Inr () \<and>
       drop (length (calls w)) (calls (snd (update_action rt a file options w))) =
         [GetContent \<lparr>g_owner = owner cl, g_repo = repo cl, g_path = file,
                      g_ref = up_branch options\<rparr>]) \<and>
    (changes options (fc_content fc) \<longrightarrow>
       drop (length (calls w)) (calls (snd (update_action rt a file options w))) =
         [GetContent \<lparr>g_owner = owner cl, g_repo = repo cl, g_path = file,
                      g_ref = up_branch options\<rparr>,
          CreateOrUpdate \<lparr>p_owner = owner cl, p_repo = repo cl, p_path = file,
                     p_message = up_message options,
                     p_content = base64_encode rt (transformed options (fc_content fc)),
                     p_sha = Some (fc_sha fc), p_branch = up_branch options\<rparr>]) \<and>
    ((\<forall>f. up_find options = Some f \<longrightarrow> \<not> sublist f (fc_content fc)) \<and>
      up_append options = None \<and> up_prepend options = None \<longrightarrow>
       \<not> changes options (fc_content fc))"
proof -
  from assms(2)
  have co: "fst (checkout rt a cl file (up_branch options) (print (CheckingOut file) w)) = Inr fc"
    by (simp add: checkout_print)
  show ?thesis
    by (simp add: update_action_eq[OF assms(1)] catch_exit_calls catch_exit_fst
        update_body_sent[OF co] absent_no_change)
qed

theorem update_checkin_iff_changed_witness:
  "fst (getClient (demo_world demo_hosted)) = Inr demo_client \<and>
   fst (checkout demo_rt hosted_api demo_client ''index.html'' ''main'' (demo_world demo_hosted))
     = Inr \<lparr>fc_content = ''hi'', fc_sha = marker_of 1, fc_path = ''index.html'',
            fc_encoding = ''base64''\<rparr> \<and>
   \<not> sublist ''a'' ''hi'' \<and>
   fst (update_action demo_rt hosted_api ''index.html''
          \<lparr>up_branch = ''main'', up_message = ''Update content'', up_find = Some ''a'',
           up_replace = Some ''b'', up_append = None, up_prepend = None\<rparr>
          (demo_world demo_hosted)) = Inr () \<and>
   calls (snd (update_action demo_rt hosted_api ''index.html''
          \<lparr>up_branch = ''main'', up_message = ''Update content'', up_find = Some ''a'',
           up_replace = Some ''b'', up_append = None, up_prepend = None\<rparr>
          (demo_world demo_hosted)))
     = [GetContent \<lparr>g_owner = ''leeasling-gradial'', g_repo = ''grady-challenge'',
                    g_path = ''index.html'', g_ref = ''main''\<rparr>] \<and>
   changes \<lparr>up_branch = ''main'', up_message = ''Update content'', up_find = None,
            up_replace = None, up_append = Some ''!'', up_prepend = None\<rparr> ''hi'' \<and>
   calls (snd (update_action demo_rt hosted_api ''index.html''
          \<lparr>up_branch = ''main'', up_message = ''Update content'', up_find = None,
           up_replace = None, up_append = Some ''!'', up_prepend = None\<rparr>
          (demo_world demo_hosted)))
     = [GetContent \<lparr>g_owner = ''leeasling-gradial'', g_repo = ''grady-challenge'',
                    g_path = ''index.html'', g_ref = ''main''\<rparr>,
        CreateOrUpdate
          \<lparr>p_owner = ''leeasling-gradial'', p_repo = ''grady-challenge'',
           p_path = ''index.html'', p_message = ''Update content'', p_content = ''aGkh'',
           p_sha = Some (marker_of 1), p_branch = ''main''\<rparr>]"
proof -
  let ?w = "demo_world demo_hosted"
  let ?o1 = "\<lparr>up_branch = ''main'', up_message = ''Update content'', up_find = Some ''a'',
           up_replace = Some ''b'', up_append = None, up_prepend = None\<rparr>"
  let ?o2 = "\<lparr>up_branch = ''main'', up_message = ''Update content'', up_find = None,
           up_replace = None, up_append = Some ''!'', up_prepend = None\<rparr>"
  let ?fc = "\<lparr>fc_content = ''hi'', fc_sha = marker_of 1, fc_path = ''index.html'',
            fc_encoding = ''base64''\<rparr>"
  have co1: "fst (checkout demo_rt hosted_api demo_client ''index.html'' (up_branch ?o1)
         ?w) = Inr ?fc"
    by code_simp
  have co2: "fst (checkout demo_rt hosted_api demo_client ''index.html'' (up_branch ?o2)
         ?w) = Inr ?fc"
    by code_simp
  have ns: "\<not> sublist ''a'' ''hi''" by code_simp
  then have pre: "(\<forall>f. up_find ?o1 = Some f \<longrightarrow> \<not> sublist f (fc_content ?fc)) \<and>
      up_append ?o1 = None \<and> up_prepend ?o1 = None"
    by simp
  have ch: "changes ?o2 ''hi''" by code_simp
  note th1 = update_checkin_iff_changed[OF demo_getClient co1]
  note th2 = update_checkin_iff_changed[OF demo_getClient co2]
  from th1 pre have nc: "\<not> changes ?o1 (fc_content ?fc)" by blast
  with th1 have r1: "fst (update_action demo_rt hosted_api ''index.html'' ?o1 ?w) = Inr ()"
    and r2: "drop (length (calls ?w)) (calls (snd (update_action demo_rt hosted_api ''index.html'' ?o1 ?w)))
       = [GetContent \<lparr>g_owner = owner demo_client, g_repo = repo demo_client,
            g_path = ''index.html'', g_ref = up_branch ?o1\<rparr>]"
    by blast+
  from th2 ch have r3: "drop (length (calls ?w)) (calls (snd (update_action demo_rt hosted_api ''index.html'' ?o2 ?w)))
       = [GetContent \<lparr>g_owner = owner demo_client, g_repo = repo demo_client,
            g_path = ''index.html'', g_ref = up_branch ?o2\<rparr>,
          CreateOrUpdate \<lparr>p_owner = owner demo_client, p_repo = repo demo_client,
            p_path = ''index.html'', p_message = up_message ?o2,
            p_content = base64_encode demo_rt (transformed ?o2 (fc_content ?fc)),
            p_sha = Some (fc_sha ?fc), p_branch = up_branch ?o2\<rparr>]"
    by simp
  have enc: "base64_encode demo_rt (transformed ?o2 ''hi'') = ''aGkh''" by code_simp
  from r2 have r2': "calls (snd (update_action demo_rt hosted_api ''index.html'' ?o1 ?w))
     = [GetContent \<lparr>g_owner = ''leeasling-gradial'', g_repo = ''grady-challenge'',
                    g_path = ''index.html'', g_ref = ''main''\<rparr>]"
    by (simp add: demo_world_fields demo_client_fields)
  from r3 have r3': "calls (snd (update_action demo_rt hosted_api ''index.html'' ?o2 ?w))
     = [GetContent \<lparr>g_owner = ''leeasling-gradial'', g_repo = ''grady-challenge'',
                    g_path = ''index.html'', g_ref = ''main''\<rparr>,
        CreateOrUpdate
          \<lparr>p_owner = ''leeasling-gradial'', p_repo = ''grady-challenge'',
           p_path = ''index.html'', p_message = ''Update content'', p_content = ''aGkh'',
           p_sha = Some (marker_of 1), p_branch = ''main''\<rparr>]"
    by (simp add: demo_world_fields demo_client_fields enc)
  show ?thesis
    by (intro conjI) (rule demo_getClient demo_checkout ns r1 r2' ch r3')+
qed

subsection \<open>C5: checkin needs the local file and its sidecar\<close>

text \<open>
  C5. A checkin command that has its credential and whose local file or sidecar does not
  exist exits on an error: "Local file not found" when the file is missing, and
  "Metadata file not found" when the file is there and the sidecar is not (both the
  specification's LocalMissing). It sends no request to the service, and leaves the
  service and the disk as they were.
\<close>

theorem checkin_requires_local_files:
  assumes "fst (getClient w) = Inr cl"
    and "disk w file = None \<or> disk w (file @ ''.meta.json'') = None"
  shows "fst (checkin_action rt a file options w) =
           Inl (if disk w file = None then LocalFileNotFound file
                else MetadataNotFound (file @ ''.meta.json'')) \<and>
         calls (snd (checkin_action rt a file options w)) = calls w \<and>
         remote (snd (checkin_action rt a file options w)) = remote w \<and>
         disk (snd (checkin_action rt a file options w)) = disk w"
  using assms
  by (simp add: checkin_action_eq catch_exit_fst catch_exit_calls catch_exit_remote
      catch_exit_disk checkin_body_missing)

theorem checkin_requires_local_files_witness:
  "fst (checkin_action demo_rt hosted_api ''new.html''
          \<lparr>ci_message = ''Update content'', ci_branch = None\<rparr> (demo_world demo_hosted))
     = Inl (MetadataNotFound ''new.html.meta.json'') \<and>
   calls (snd (checkin_action demo_rt hosted_api ''new.html''
          \<lparr>ci_message = ''Update content'', ci_branch = None\<rparr> (demo_world demo_hosted))) = [] \<and>
   fst (checkin_action demo_rt hosted_api ''none.html''
          \<lparr>ci_message = ''Update content'', ci_branch = None\<rparr> (demo_world demo_hosted))
     = Inl (LocalFileNotFound ''none.html'') \<and>
   calls (snd (checkin_action demo_rt hosted_api ''none.html''
          \<lparr>ci_message = ''Update content'', ci_branch = None\<rparr> (demo_world demo_hosted))) = []"
proof -
  have h1: "disk (demo_world demo_hosted) ''new.html'' = None \<or>
            disk (demo_world demo_hosted) (''new.html'' @ ''.meta.json'') = None"
    by (simp add: demo_world_fields demo_disk_def)
  have h2: "disk (demo_world demo_hosted) ''none.html'' = None \<or>
            disk (demo_world demo_hosted) (''none.html'' @ ''.meta.json'') = None"
    by (simp add: demo_world_fields demo_disk_def)
  from checkin_requires_local_files[OF demo_getClient h1, of demo_rt hosted_api
      "\<lparr>ci_message = ''Update content'', ci_branch = None\<rparr>"]
    checkin_requires_local_files[OF demo_getClient h2, of demo_rt hosted_api
      "\<lparr>ci_message = ''Update content'', ci_branch = None\<rparr>"]
  show ?thesis
    by (simp add: demo_world_fields demo_disk_def)
qed

subsection \<open>C6: the outcomes of checkout\<close>

text \<open>
  C6 as stated names three failures and says that checkout otherwise returns the decoded
  content. Two answers of the service show that it does not. A symbolic link is a single
  object and not a directory, the service reports no absence, and yet checkout neither
  fails with "No content found" nor returns: it fails because the type is not
  \<open>file\<close>. And an error of the service with status 500 makes checkout fail.
\<close>

theorem checkout_cases_counterexample:
  "\<not> (fst (checkout demo_rt
              (answering (Inr (Object \<lparr>item_type = ''symlink'', item_path = ''link'',
                 item_sha = ''abc'', item_content = None, item_encoding = None\<rparr>)))
              demo_client ''link'' ''main'' (demo_world ())) = Inl (NoContent ''link'') \<or>
       \<not> isl (fst (checkout demo_rt
              (answering (Inr (Object \<lparr>item_type = ''symlink'', item_path = ''link'',
                 item_sha = ''abc'', item_content = None, item_encoding = None\<rparr>)))
              demo_client ''link'' ''main'' (demo_world ())))) \<and>
   isl (fst (checkout demo_rt (answering (Inl (ApiError (Some 500) ''Server Error'')))
              demo_client ''index.html'' ''main'' (demo_world ())))"
  by (simp add: checkout_def repos_getContent_def answering_def)

text \<open>
  C6, amended. For every path and branch, with \<open>response\<close> the answer of the service:
  \<^item> a directory listing makes checkout fail with "is a directory, not a file";
  \<^item> a single object whose type is not \<open>file\<close> makes it fail with "is not a file";
  \<^item> an error with status 404 makes it fail with "File not found";
  \<^item> any other error of the service is passed on as it is;
  \<^item> a file without content, or with empty content, makes it fail with "No content
    found";
  \<^item> a file with content is returned: the base64-decoded content, the revision marker and
    path of the object, and its encoding ("base64" when the object names none).
\<close>

theorem checkout_cases:
  assumes "response = getContent a (octokit cl)
      \<lparr>g_owner = owner cl, g_repo = repo cl, g_path = path, g_ref = branch\<rparr> (remote w)"
  shows
  "(response = Inr (Listing entries) \<longrightarrow>
      fst (checkout rt a cl path branch w) = Inl (IsDirectory path)) \<and>
   (response = Inr (Object d) \<and> item_type d \<noteq> ''file'' \<longrightarrow>
      fst (checkout rt a cl path branch w) = Inl (NotFileType path (item_type d))) \<and>
   (response = Inl e \<and> err_status e = Some 404 \<longrightarrow>
      fst (checkout rt a cl path branch w) = Inl (FileNotFound path)) \<and>
   (response = Inl e \<and> err_status e \<noteq> Some 404 \<longrightarrow>
      fst (checkout rt a cl path branch w) = Inl (RequestError e)) \<and>
   (response = Inr (Object d) \<and> item_type d = ''file'' \<and> \<not> truthy (item_content d) \<longrightarrow>
      fst (checkout rt a cl path branch w) = Inl (NoContent path)) \<and>
   (response = Inr (Object d) \<and> item_type d = ''file'' \<and> item_content d = Some c \<and> c \<noteq> [] \<longrightarrow>
      fst (checkout rt a cl path branch w) =
        Inr \<lparr>fc_content = base64_decode rt c, fc_sha = item_sha d, fc_path = item_path d,
             fc_encoding = or_else (item_encoding d) ''base64''\<rparr>)"
  using assms
  by (cases "item_content d")
     (auto simp add: checkout_def repos_getContent_def split: sum.splits contents.splits)

theorem checkout_cases_witness:
  "fst (checkout demo_rt (answering (Inr (Listing []))) demo_client ''docs'' ''main'' (demo_world ()))
     = Inl (IsDirectory ''docs'') \<and>
   fst (checkout demo_rt
          (answering (Inr (Object \<lparr>item_type = ''submodule'', item_path = ''lib'',
             item_sha = ''abc'', item_content = None, item_encoding = None\<rparr>)))
          demo_client ''lib'' ''main'' (demo_world ()))
     = Inl (NotFileType ''lib'' ''submodule'') \<and>
   fst (checkout demo_rt hosted_api demo_client ''nope.html'' ''main'' (demo_world demo_hosted))
     = Inl (FileNotFound ''nope.html'') \<and>
   fst (checkout demo_rt (answering (Inl (ApiError (Some 500) ''Server Error'')))
          demo_client ''index.html'' ''main'' (demo_world ()))
     = Inl (RequestError (ApiError (Some 500) ''Server Error'')) \<and>
   fst (checkout demo_rt
          (answering (Inr (Object \<lparr>item_type = ''file'', item_path = ''big.bin'',
             item_sha = ''abc'', item_content = Some [], item_encoding = Some ''none''\<rparr>)))
          demo_client ''big.bin'' ''main'' (demo_world ()))
     = Inl (NoContent ''big.bin'') \<and>
   fst (checkout demo_rt hosted_api demo_client ''index.html'' ''main'' (demo_world demo_hosted))
     = Inr \<lparr>fc_content = ''hi'', fc_sha = marker_of 1, fc_path = ''index.html'',
            fc_encoding = ''base64''\<rparr>"
proof -
  note th = checkout_cases[OF refl, where rt = demo_rt and cl = demo_client]
  have a: "fst (checkout demo_rt (answering (Inr (Listing []))) demo_client ''docs'' ''main''
      (demo_world ())) = Inl (IsDirectory ''docs'')"
    using th[where a = "answering (Inr (Listing []))" and path = "''docs''" and entries = "[]"
        and w = "demo_world ()"]
    by (simp add: answering_def)
  let ?sub = "\<lparr>item_type = ''submodule'', item_path = ''lib'',
             item_sha = ''abc'', item_content = None, item_encoding = None\<rparr>"
  have b: "fst (checkout demo_rt (answering (Inr (Object ?sub))) demo_client ''lib'' ''main''
      (demo_world ())) = Inl (NotFileType ''lib'' ''submodule'')"
    using th[where a = "answering (Inr (Object ?sub))" and path = "''lib''" and d = ?sub
        and w = "demo_world ()"]
    by (simp add: answering_def)
  have c: "fst (checkout demo_rt hosted_api demo_client ''nope.html'' ''main'' (demo_world demo_hosted))
     = Inl (FileNotFound ''nope.html'')"
    using th[where a = hosted_api and path = "''nope.html''" and branch = "''main''"
        and e = "ApiError (Some 404) ''Not Found''" and w = "demo_world demo_hosted"]
    by (simp add: hosted_api_def hosted_getContent_def demo_world_fields demo_hosted_def
        demo_client_fields)
  have d: "fst (checkout demo_rt (answering (Inl (ApiError (Some 500) ''Server Error'')))
          demo_client ''index.html'' ''main'' (demo_world ()))
     = Inl (RequestError (ApiError (Some 500) ''Server Error''))"
    using th[where a = "answering (Inl (ApiError (Some 500) ''Server Error''))"
        and path = "''index.html''" and e = "ApiError (Some 500) ''Server Error''"
        and w = "demo_world ()"]
    by (simp add: answering_def)
  let ?big = "\<lparr>item_type = ''file'', item_path = ''big.bin'',
             item_sha = ''abc'', item_content = Some [], item_encoding = Some ''none''\<rparr>"
  have e: "fst (checkout demo_rt (answering (Inr (Object ?big))) demo_client ''big.bin'' ''main''
      (demo_world ())) = Inl (NoContent ''big.bin'')"
    using th[where a = "answering (Inr (Object ?big))" and path = "''big.bin''" and d = ?big
        and w = "demo_world ()"]
    by (simp add: answering_def)
  let ?it = "\<lparr>item_type = ''file'', item_path = ''index.html'', item_sha = marker_of 1,
              item_content = Some ''aGk='', item_encoding = Some ''base64''\<rparr>"
  have f: "fst (checkout demo_rt hosted_api demo_client ''index.html'' ''main'' (demo_world demo_hosted))
     = Inr \<lparr>fc_content = ''hi'', fc_sha = marker_of 1, fc_path = ''index.html'',
            fc_encoding = ''base64''\<rparr>"
    using th[where a = hosted_api and path = "''index.html''" and branch = "''main''"
        and d = ?it and c = "''aGk=''" and w = "demo_world demo_hosted"]
    by (simp add: hosted_api_def hosted_getContent_def demo_world_fields demo_hosted_def
        demo_client_fields demo_encode)
  show ?thesis
    by (intro conjI) (rule a b c d e f)+
qed

subsection \<open>C7: the branch of a checkin and the sidecar after it\<close>

text \<open>
  C7 as stated lets the branch flag win whenever it is given. Given as the empty string,
  it does not: the request goes to the branch recorded in the sidecar, here \<open>dev\<close>.
\<close>

theorem checkin_empty_branch_flag_counterexample:
  "\<not> (calls (snd (checkin_action demo_rt hosted_api ''index.html''
          \<lparr>ci_message = ''Update content'', ci_branch = Some ''''\<rparr> (demo_world demo_hosted)))
       = [CreateOrUpdate
            \<lparr>p_owner = ''leeasling-gradial'', p_repo = ''grady-challenge'',
             p_path = ''index.html'', p_message = ''Update content'', p_content = ''aGkh'',
             p_sha = Some (marker_of 1),
             p_branch = branch_as_stated (Some '''') (m_branch demo_meta)\<rparr>])"
proof -
  have d1: "disk (demo_world demo_hosted) ''index.html'' = Some ''hi!''"
    and d2: "disk (demo_world demo_hosted) (''index.html'' @ ''.meta.json'') = Some ''demo''"
    by (simp_all add: demo_world_fields demo_disk_def)
  show ?thesis
    by (simp add: checkin_action_eq[OF demo_getClient] catch_exit_calls
        checkin_body_sent[OF d1 d2 demo_parse(1)] demo_world_fields demo_client_fields
        demo_meta_def branch_non_empty_def branch_as_stated_def)
qed

text \<open>
  C7, amended. A checkin command that has its credential, its local file and a sidecar
  that parses sends exactly one request: the conditional update of the sidecar's path
  with the local content, the sidecar's marker as precondition, and as branch the flag
  when it is given and not empty, else the branch recorded in the sidecar when there is
  one and it is not empty, else "main". When the service answers with a commit, the
  command runs to its end and rewrites the sidecar: the marker becomes the commit's,
  \<open>lastCommit\<close> the commit's URL and \<open>lastUpdatedAt\<close> the time of the clock, while
  the path, the branch and \<open>checkedOutAt\<close> stay as they were; no other local file
  changes.
\<close>

theorem checkin_branch_and_sidecar:
  assumes "fst (getClient w) = Inr cl"
    and "disk w file = Some content"
    and "disk w (file @ ''.meta.json'') = Some text"
    and "JSON_parse rt text = Some meta"
    and "req = \<lparr>p_owner = owner cl, p_repo = repo cl, p_path = m_path meta,
                p_message = ci_message options, p_content = base64_encode rt content,
                p_sha = Some (m_sha meta),
                p_branch = branch_non_empty (ci_branch options) (m_branch meta)\<rparr>"
  shows "calls (snd (checkin_action rt a file options w)) = calls w @ [CreateOrUpdate req] \<and>
         (fst (createOrUpdateFileContents a (octokit cl) req (remote w)) = Inr c \<longrightarrow>
            fst (checkin_action rt a file options w) = Inr () \<and>
            disk (snd (checkin_action rt a file options w)) =
              (disk w)(file @ ''.meta.json'' \<mapsto> JSON_stringify rt
                 \<lparr>m_path = m_path meta, m_sha = or_else (commit_sha c) [],
                  m_branch = m_branch meta, checkedOutAt = checkedOutAt meta,
                  lastCommit = Some (or_else (commit_html_url c) []),
                  lastUpdatedAt = Some (clock w)\<rparr>))"
  using assms
  by (simp add: checkin_action_eq catch_exit_fst catch_exit_calls catch_exit_disk
      checkin_body_sent checkin_body_accepted)

theorem checkin_branch_and_sidecar_witness:
  "fst (getClient (demo_world demo_hosted)) = Inr demo_client \<and>
   disk (demo_world demo_hosted) ''index.html'' = Some ''hi!'' \<and>
   disk (demo_world demo_hosted) ''index.html.meta.json'' = Some ''demo'' \<and>
   JSON_parse demo_rt ''demo'' = Some demo_meta \<and>
   calls (snd (checkin_action demo_rt hosted_api ''index.html''
          \<lparr>ci_message = ''Update content'', ci_branch = Some []\<rparr> (demo_world demo_hosted)))
     = [CreateOrUpdate
          \<lparr>p_owner = ''leeasling-gradial'', p_repo = ''grady-challenge'',
           p_path = ''index.html'', p_message = ''Update content'', p_content = ''aGkh'',
           p_sha = Some (marker_of 1), p_branch = ''dev''\<rparr>] \<and>
   fst (checkin_action demo_rt hosted_api ''index.html''
          \<lparr>ci_message = ''Update content'', ci_branch = Some []\<rparr> (demo_world demo_hosted))
     = Inr () \<and>
   disk (snd (checkin_action demo_rt hosted_api ''index.html''
          \<lparr>ci_message = ''Update content'', ci_branch = Some []\<rparr> (demo_world demo_hosted)))
     ''index.html.meta.json''
     = Some (show_meta
         \<lparr>m_path = ''index.html'', m_sha = marker_of 2, m_branch = Some ''dev'',
          checkedOutAt = ''2024-05-01T09:00:00.000Z'',
          lastCommit = Some (''commit/'' @ marker_of 2),
          lastUpdatedAt = Some ''2024-05-01T12:00:00.000Z''\<rparr>)"
proof -
  let ?w = "demo_world demo_hosted"
  let ?o = "\<lparr>ci_message = ''Update content'', ci_branch = Some []\<rparr>"
  let ?req = "\<lparr>p_owner = owner demo_client, p_repo = repo demo_client,
                p_path = m_path demo_meta, p_message = ci_message ?o,
                p_content = base64_encode demo_rt ''hi!'', p_sha = Some (m_sha demo_meta),
                p_branch = branch_non_empty (ci_branch ?o) (m_branch demo_meta)\<rparr>"
  let ?c = "\<lparr>commit_sha = Some (marker_of 2), commit_html_url = Some (''commit/'' @ marker_of 2),
             commit_message = Some ''Update content''\<rparr>"
  have d1: "disk ?w ''index.html'' = Some ''hi!''" by code_simp
  have d2: "disk ?w (''index.html'' @ ''.meta.json'') = Some ''demo''" by code_simp
  have d3: "disk ?w ''index.html.meta.json'' = Some ''demo''" by code_simp
  have q: "calls ?w @ [CreateOrUpdate ?req] =
         [CreateOrUpdate \<lparr>p_owner = ''leeasling-gradial'', p_repo = ''grady-challenge'',
           p_path = ''index.html'', p_message = ''Update content'', p_content = ''aGkh'',
           p_sha = Some (marker_of 1), p_branch = ''dev''\<rparr>]"
    by code_simp
  have a: "fst (createOrUpdateFileContents hosted_api (octokit demo_client) ?req (remote ?w)) = Inr ?c"
    by code_simp
  have x: "JSON_stringify demo_rt
           \<lparr>m_path = m_path demo_meta, m_sha = or_else (commit_sha ?c) [],
            m_branch = m_branch demo_meta, checkedOutAt = checkedOutAt demo_meta,
            lastCommit = Some (or_else (commit_html_url ?c) []),
            lastUpdatedAt = Some (clock ?w)\<rparr>
         = show_meta
         \<lparr>m_path = ''index.html'', m_sha = marker_of 2, m_branch = Some ''dev'',
          checkedOutAt = ''2024-05-01T09:00:00.000Z'',
          lastCommit = Some (''commit/'' @ marker_of 2),
          lastUpdatedAt = Some ''2024-05-01T12:00:00.000Z''\<rparr>"
    by code_simp
  note th = checkin_branch_and_sidecar[OF demo_getClient d1 d2 demo_parse(1) refl,
      where a = hosted_api and options = ?o and c = ?c]
  from th a have r1: "calls (snd (checkin_action demo_rt hosted_api ''index.html'' ?o ?w))
        = calls ?w @ [CreateOrUpdate ?req]"
    and r2: "fst (checkin_action demo_rt hosted_api ''index.html'' ?o ?w) = Inr ()"
    and r3: "disk (snd (checkin_action demo_rt hosted_api ''index.html'' ?o ?w)) =
        (disk ?w)(''index.html'' @ ''.meta.json'' \<mapsto> JSON_stringify demo_rt
           \<lparr>m_path = m_path demo_meta, m_sha = or_else (commit_sha ?c) [],
            m_branch = m_branch demo_meta, checkedOutAt = checkedOutAt demo_meta,
            lastCommit = Some (or_else (commit_html_url ?c) []),
            lastUpdatedAt = Some (clock ?w)\<rparr>)"
    by blast+
  from r3 have r4: "disk (snd (checkin_action demo_rt hosted_api ''index.html'' ?o ?w))
      ''index.html.meta.json'' = Some (JSON_stringify demo_rt
           \<lparr>m_path = m_path demo_meta, m_sha = or_else (commit_sha ?c) [],
            m_branch = m_branch demo_meta, checkedOutAt = checkedOutAt demo_meta,
            lastCommit = Some (or_else (commit_html_url ?c) []),
            lastUpdatedAt = Some (clock ?w)\<rparr>)"
    by simp
  show ?thesis
    by (intro conjI) (rule demo_getClient d1 d3 demo_parse(1) r1[unfolded q] r2 r4[unfolded x])+
qed

subsection \<open>C8: listFiles on a file and on a directory\<close>

text \<open>
  C8. For every path and branch, when the service answers with a single object,
  \<open>listFiles\<close> returns the one-element list of that object's path; when it answers with
  a directory listing, \<open>listFiles\<close> returns the paths of the entries whose type is
  \<open>file\<close>, in the order of the listing, and of no other entry.
\<close>

theorem listFiles_file_or_directory:
  "(getContent a (octokit cl)
      \<lparr>g_owner = owner cl, g_repo = repo cl, g_path = path, g_ref = branch\<rparr> (remote w)
      = Inr (Object d)
    \<longrightarrow> fst (listFiles a cl path branch w) = Inr [item_path d]) \<and>
   (getContent a (octokit cl)
      \<lparr>g_owner = owner cl, g_repo = repo cl, g_path = path, g_ref = branch\<rparr> (remote w)
      = Inr (Listing entries)
    \<longrightarrow> fst (listFiles a cl path branch w) = Inr [item_path i. i \<leftarrow> entries, item_type i = ''file''])"
proof -
  have "[item_path i. i \<leftarrow> entries, item_type i = ''file'']
      = map item_path (filter (\<lambda>i. item_type i = ''file'') entries)"
    by (induction entries) simp_all
  then show ?thesis
    by (simp add: listFiles_def repos_getContent_def)
qed

theorem listFiles_file_or_directory_witness:
  "fst (listFiles hosted_api demo_client ''index.html'' ''main'' (demo_world demo_hosted))
     = Inr [''index.html''] \<and>
   fst (listFiles
          (answering (Inr (Listing
             [\<lparr>item_type = ''file'', item_path = ''docs/a.md'', item_sha = ''s1'',
               item_content = None, item_encoding = None\<rparr>,
              \<lparr>item_type = ''dir'', item_path = ''docs/img'', item_sha = ''s2'',
               item_content = None, item_encoding = None\<rparr>,
              \<lparr>item_type = ''file'', item_path = ''docs/b.md'', item_sha = ''s3'',
               item_content = None, item_encoding = None\<rparr>])))
          demo_client ''docs'' ''main'' (demo_world ()))
     = Inr [''docs/a.md'', ''docs/b.md'']"
proof -
  have h1: "getContent hosted_api (octokit demo_client)
      \<lparr>g_owner = owner demo_client, g_repo = repo demo_client, g_path = ''index.html'',
       g_ref = ''main''\<rparr> (remote (demo_world demo_hosted))
      = Inr (Object \<lparr>item_type = ''file'', item_path = ''index.html'', item_sha = marker_of 1,
                     item_content = Some ''aGk='', item_encoding = Some ''base64''\<rparr>)"
    by (simp add: hosted_api_def hosted_getContent_def demo_client_def demo_world_def
        demo_hosted_def)
  let ?es = "[\<lparr>item_type = ''file'', item_path = ''docs/a.md'', item_sha = ''s1'',
               item_content = None, item_encoding = None\<rparr>,
              \<lparr>item_type = ''dir'', item_path = ''docs/img'', item_sha = ''s2'',
               item_content = None, item_encoding = None\<rparr>,
              \<lparr>item_type = ''file'', item_path = ''docs/b.md'', item_sha = ''s3'',
               item_content = None, item_encoding = None\<rparr>]"
  have h2: "getContent (answering (Inr (Listing ?es))) (octokit demo_client)
      \<lparr>g_owner = owner demo_client, g_repo = repo demo_client, g_path = ''docs'',
       g_ref = ''main''\<rparr> (remote (demo_world ())) = Inr (Listing ?es)"
    by (simp add: answering_def)
  from listFiles_file_or_directory[of hosted_api demo_client "''index.html''" "''main''"
      "demo_world demo_hosted" _ "[]"] h1
  have a: "fst (listFiles hosted_api demo_client ''index.html'' ''main'' (demo_world demo_hosted))
     = Inr [''index.html'']"
    by simp
  from listFiles_file_or_directory[of "answering (Inr (Listing ?es))" demo_client "''docs''"
      "''main''" "demo_world ()" undefined ?es] h2
  have b: "fst (listFiles (answering (Inr (Listing ?es))) demo_client ''docs'' ''main''
      (demo_world ())) = Inr [''docs/a.md'', ''docs/b.md'']"
    by simp
  from a b show ?thesis by simp
qed

subsection \<open>C9: update and the local disk\<close>

text \<open>
  C9. The update command performs no write to the local file system: after the command,
  whatever its options, the answers of the service and its outcome, the local files are
  those it started with. It creates and modifies neither a content file nor a sidecar.
\<close>

theorem update_writes_no_local_file:
  "disk (snd (update_action rt a file options w)) = disk w"
proof (cases "fst (getClient w)")
  case (Inl e)
  then obtain w' where "getClient w = (Inl e, w')" "disk w' = disk w"
    using getClient_Inl by blast
  then show ?thesis by (simp add: update_action_def)
next
  case (Inr cl)
  then have "getClient w = (Inr cl, w)" by (rule getClient_Inr)
  then show ?thesis
    by (simp add: update_action_def catch_exit_disk update_body_disk)
qed

subsection \<open>C10: when find/replace is applied\<close>

text \<open>
  C10. When \<open>find\<close> is not given, is empty, or is given without \<open>replace\<close>, the
  find/replace step leaves the content, the flag and the printed lines as they are, and
  the whole command behaves as it does with neither option: same outcome, same requests,
  same lines printed, no error of its own. When \<open>find\<close> is a non-empty text and
  \<open>replace\<close> is given, empty or not, the step replaces every non-overlapping
  occurrence of the find text.
\<close>

theorem find_replace_needs_both_options:
  "(\<not> (truthy (up_find options) \<and> up_replace options \<noteq> None) \<longrightarrow>
      find_replace options st = st \<and>
      update_action rt a file options w =
        update_action rt a file (options\<lparr>up_find := None, up_replace := None\<rparr>) w) \<and>
   (up_find options = Some f \<and> f \<noteq> [] \<and> up_replace options = Some r \<longrightarrow>
      fst (find_replace options (c, m, out)) = replace_all f r c)"
proof (intro conjI impI)
  assume s: "\<not> (truthy (up_find options) \<and> up_replace options \<noteq> None)"
  then show "find_replace options st = st" by (rule find_replace_skipped)
  from s have t: "\<And>c. transformations options c =
      transformations (options\<lparr>up_find := None, up_replace := None\<rparr>) c"
    by (rule transformations_skipped)
  have m: "up_message (options\<lparr>up_find := None, up_replace := None\<rparr>) = up_message options"
    "up_branch (options\<lparr>up_find := None, up_replace := None\<rparr>) = up_branch options"
    by simp_all
  have b: "\<And>cl w0. update_body rt a cl file options w0 =
      update_body rt a cl file (options\<lparr>up_find := None, up_replace := None\<rparr>) w0"
    unfolding update_body_def t m ..
  show "update_action rt a file options w =
        update_action rt a file (options\<lparr>up_find := None, up_replace := None\<rparr>) w"
    unfolding update_action_def b ..
next
  assume "up_find options = Some f \<and> f \<noteq> [] \<and> up_replace options = Some r"
  then show "fst (find_replace options (c, m, out)) = replace_all f r c"
    by (simp add: find_replace_content replaced_def)
qed

theorem find_replace_needs_both_options_witness:
  "\<not> (truthy (Some ''h'') \<and> (None :: string option) \<noteq> None) \<and>
   console (snd (update_action demo_rt hosted_api ''index.html''
          \<lparr>up_branch = ''main'', up_message = ''Update content'', up_find = Some ''h'',
           up_replace = None, up_append = None, up_prepend = None\<rparr>
          (demo_world demo_hosted)))
     = [CheckingOut ''index.html'', NoModifications] \<and>
   fst (update_action demo_rt hosted_api ''index.html''
          \<lparr>up_branch = ''main'', up_message = ''Update content'', up_find = Some ''h'',
           up_replace = None, up_append = None, up_prepend = None\<rparr>
          (demo_world demo_hosted)) = Inr () \<and>
   \<not> (truthy (Some []) \<and> Some ''x'' \<noteq> None) \<and>
   find_replace
     \<lparr>up_branch = ''main'', up_message = ''Update content'', up_find = Some [],
      up_replace = Some ''x'', up_append = None, up_prepend = None\<rparr> (''hi'', False, [])
     = (''hi'', False, []) \<and>
   fst (find_replace
     \<lparr>up_branch = ''main'', up_message = ''Update content'', up_find = Some ''h'',
      up_replace = Some [], up_append = None, up_prepend = None\<rparr> (''hi'', False, []))
     = ''i''"
proof -
  let ?w = "demo_world demo_hosted"
  let ?o1 = "\<lparr>up_branch = ''main'', up_message = ''Update content'', up_find = Some ''h'',
           up_replace = None, up_append = None, up_prepend = None\<rparr>"
  let ?o2 = "\<lparr>up_branch = ''main'', up_message = ''Update content'', up_find = Some [],
      up_replace = Some ''x'', up_append = None, up_prepend = None\<rparr>"
  let ?o3 = "\<lparr>up_branch = ''main'', up_message = ''Update content'', up_find = Some ''h'',
      up_replace = Some [], up_append = None, up_prepend = None\<rparr>"
  have p1: "\<not> (truthy (Some ''h'') \<and> (None :: string option) \<noteq> None)" by simp
  have p2: "\<not> (truthy (Some []) \<and> Some ''x'' \<noteq> None)" by simp
  note th = find_replace_needs_both_options[of _ "(''hi'', False, [])" demo_rt hosted_api
      "''index.html''" ?w _ _ "''hi''" False "[]"]
  from th[of ?o1 "''h''" "[]"] p1
  have eq: "update_action demo_rt hosted_api ''index.html'' ?o1 ?w =
        update_action demo_rt hosted_api ''index.html'' (?o1\<lparr>up_find := None, up_replace := None\<rparr>) ?w"
    by simp
  have c0: "console (snd (update_action demo_rt hosted_api ''index.html''
      (?o1\<lparr>up_find := None, up_replace := None\<rparr>) ?w)) = [CheckingOut ''index.html'', NoModifications]"
    by code_simp
  have f0: "fst (update_action demo_rt hosted_api ''index.html''
      (?o1\<lparr>up_find := None, up_replace := None\<rparr>) ?w) = Inr ()"
    by code_simp
  from eq c0 have c1: "console (snd (update_action demo_rt hosted_api ''index.html'' ?o1 ?w))
      = [CheckingOut ''index.html'', NoModifications]" by simp
  from eq f0 have f1: "fst (update_action demo_rt hosted_api ''index.html'' ?o1 ?w) = Inr ()"
    by simp
  from th[of ?o2 "''h''" "[]"] p2
  have s2: "find_replace ?o2 (''hi'', False, []) = (''hi'', False, [])"
    by simp
  from th[of ?o3 "''h''" "[]"]
  have "fst (find_replace ?o3 (''hi'', False, [])) = replace_all ''h'' [] ''hi''"
    by simp
  moreover have "replace_all ''h'' [] ''hi'' = ''i''" by code_simp
  ultimately have s3: "fst (find_replace ?o3 (''hi'', False, [])) = ''i''" by simp
  show ?thesis
    by (intro conjI) (rule p1 c1 f1 p2 s2 s3)+
qed

end
